theory Spec2Isabelle
  imports Complex_Main "HOL-Library.AList"
begin

section \<open>LeaseLooker: the hybrid retrieval pipeline of LeaseRAG.py\<close>

text \<open>
  The development follows \<^verbatim>\<open>src/LeaseRAG.py\<close> and \<^verbatim>\<open>src/config.py\<close>.
  The class \<^verbatim>\<open>LeaseRAG\<close> is a record, its methods are functions that take the
  object and return it updated, a raised exception is the left injection of a sum, and
  every call that leaves the process (reading the PDF, the embedding service, the
  completion service) is written to a trace of events, so that the order of the calls and
  the text that was sent can be stated.

  The program is glue around library objects. What the libraries compute from the outside
  world (the text of the PDF pages, the pieces a text is cut into, the two rankings, the
  completion) is a field of the record \<open>services\<close>; what they do with these values on
  the way (page numbering, copying metadata to chunks, cutting a ranking to \<open>k\<close>, rank
  fusion, prompt assembly) is written out as the library does it: \<^verbatim>\<open>PyPDFLoader\<close>,
  \<^verbatim>\<open>TextSplitter.create_documents\<close>, the retrievers' \<^verbatim>\<open>k\<close>,
  \<^verbatim>\<open>EnsembleRetriever.weighted_reciprocal_rank\<close>, \<^verbatim>\<open>create_stuff_documents_chain\<close>
  and \<^verbatim>\<open>create_retrieval_chain\<close> of LangChain. The prints under \<^verbatim>\<open>DEBUG\<close> are
  left out.
\<close>

subsection \<open>Values: documents, exceptions, events\<close>

datatype meta_value = MInt int | MStr string

text \<open>A LangChain \<^verbatim>\<open>Document\<close>: the text and the metadata dict, in insertion order.\<close>

record document =
  page_content :: string
  metadata :: "(string \<times> meta_value) list"

text \<open>
  \<open>ValueError\<close> is the only exception class LeaseRAG.py raises itself; an exception
  of any other class comes out of a library call and carries its class name.
\<close>

datatype exception = ValueError string | OtherException string string

datatype io_event =
    LoadPDF string
  | EmbedDocuments "string list"
  | EmbedQuery string
  | Complete string

type_synonym 'a io = "io_event list \<times> (exception + 'a)"

definition io_return :: "'a \<Rightarrow> 'a io" where
  "io_return x = ([], Inr x)"

definition io_raise :: "exception \<Rightarrow> 'a io" where
  "io_raise e = ([], Inl e)"

definition io_call :: "io_event \<Rightarrow> exception + 'a \<Rightarrow> 'a io" where
  "io_call ev r = ([ev], r)"

definition io_bind :: "'a io \<Rightarrow> ('a \<Rightarrow> 'b io) \<Rightarrow> 'b io" where
  "io_bind m f =
     (case m of
        (tr, Inl e) \<Rightarrow> (tr, Inl e)
      | (tr, Inr x) \<Rightarrow> (case f x of (tr', r) \<Rightarrow> (tr @ tr', r)))"

subsection \<open>config.py\<close>

definition NL :: string where
  "NL = [CHR 0x0A]"

record config =
  CHUNK_SIZE :: int
  CHUNK_OVERLAP :: int
  SEPARATORS :: "string list"
  NUM_CHUNKS :: nat
  BM25_WEIGHT :: rat
  FAISS_WEIGHT :: rat
  MODEL_NAME :: string
  TEMPERATURE :: rat
  MAX_RESPONSE_SENTENCES :: int
  PROMPT_TEMPLATE :: string
  DEBUG :: bool

text \<open>
  The values of config.py (the fallback values of LeaseRAG.py are the same). The two
  weights are the decimal fractions the file writes; scores are exact rationals here.
\<close>

definition default_config :: config where
  "default_config =
     \<lparr>CHUNK_SIZE = 250,
      CHUNK_OVERLAP = 50,
      SEPARATORS = [NL @ NL, NL, ''. '', '' '', ''''],
      NUM_CHUNKS = 3,
      BM25_WEIGHT = 3 / 10,
      FAISS_WEIGHT = 7 / 10,
      MODEL_NAME = ''gpt-3.5-turbo'',
      TEMPERATURE = 0,
      MAX_RESPONSE_SENTENCES = 5,
      PROMPT_TEMPLATE =
        ''Answer the question based ONLY on the context below.'' @ NL @
        ''For every fact, you MUST cite the Page Number found in the metadata.'' @ NL @
        ''Try to answer in a concise manner. No more than {max_sentences} sentences.'' @ NL @
        NL @
        ''Context:'' @ NL @
        ''{context}'' @ NL @
        NL @
        ''Question: {input}'' @ NL @
        ''Answer:'',
      DEBUG = False\<rparr>"

subsection \<open>The outside world\<close>

text \<open>
  \<open>environ\<close> is \<^verbatim>\<open>os.environ\<close>. \<open>read_pdf\<close> gives the text of each page of the
  file, in order, or the loader's exception. \<open>make_splitter\<close> builds the
  \<^verbatim>\<open>RecursiveCharacterTextSplitter\<close> for a chunk size, an overlap and the separators: it
  refuses some arguments, and otherwise is the function \<^verbatim>\<open>split_text\<close>.
  \<open>bm25_build\<close> and \<open>embed_documents\<close> are the two index constructions;
  \<open>bm25_rank\<close> and \<open>faiss_rank\<close> rank the indexed chunks for a question, best
  first. \<open>complete\<close> is the chat model called with a model name, a temperature and the
  prompt.
\<close>

record services =
  environ :: "string \<Rightarrow> string option"
  read_pdf :: "string \<Rightarrow> exception + string list"
  make_splitter :: "int \<Rightarrow> int \<Rightarrow> string list \<Rightarrow> exception + (string \<Rightarrow> string list)"
  bm25_build :: "document list \<Rightarrow> exception + unit"
  bm25_rank :: "document list \<Rightarrow> string \<Rightarrow> document list"
  embed_documents :: "string list \<Rightarrow> exception + unit"
  faiss_rank :: "document list \<Rightarrow> string \<Rightarrow> exception + document list"
  complete :: "string \<Rightarrow> rat \<Rightarrow> string \<Rightarrow> exception + string"

subsection \<open>Python helpers\<close>

text \<open>\<^verbatim>\<open>x or d\<close> for an optional integer: \<^verbatim>\<open>None\<close> and \<^verbatim>\<open>0\<close> are falsy.\<close>

definition py_or :: "int option \<Rightarrow> int \<Rightarrow> int" where
  "py_or x d = (case x of None \<Rightarrow> d | Some v \<Rightarrow> if v = 0 then d else v)"

text \<open>\<^verbatim>\<open>not os.environ.get(name)\<close>: true for a missing and for an empty value.\<close>

definition env_missing :: "services \<Rightarrow> string \<Rightarrow> bool" where
  "env_missing sv name = (case environ sv name of None \<Rightarrow> True | Some v \<Rightarrow> v = [])"

text \<open>\<^verbatim>\<open>d.get(key, default)\<close> on a metadata dict.\<close>

definition dict_get :: "(string \<times> meta_value) list \<Rightarrow> string \<Rightarrow> meta_value \<Rightarrow> meta_value" where
  "dict_get d key dflt = (case map_of d key of None \<Rightarrow> dflt | Some v \<Rightarrow> v)"

text \<open>\<^verbatim>\<open>sep.join(parts)\<close>.\<close>

fun str_join :: "string \<Rightarrow> string list \<Rightarrow> string" where
  "str_join sep [] = []"
| "str_join sep [x] = x"
| "str_join sep (x # y # ys) = x @ sep @ str_join sep (y # ys)"

text \<open>
  \<^verbatim>\<open>text.find(sub, start)\<close> for \<open>start \<ge> 0\<close>: the lowest index at or after
  \<open>start\<close> where \<open>sub\<close> begins, or \<open>-1\<close>.
\<close>

fun find_at :: "string \<Rightarrow> string \<Rightarrow> nat \<Rightarrow> int" where
  "find_at [] sub i = (if sub = [] then int i else - 1)"
| "find_at (ch # cs) sub i =
     (if take (length sub) (ch # cs) = sub then int i else find_at cs sub (Suc i))"

definition str_find :: "string \<Rightarrow> string \<Rightarrow> int \<Rightarrow> int" where
  "str_find txt sub start =
     (if int (length txt) < start then - 1
      else find_at (drop (nat start) txt) sub (nat start))"

subsection \<open>Loading and chunking\<close>

text \<open>
  \<^verbatim>\<open>PyPDFLoader(path).load()\<close>: one document per page, in order, whose metadata holds
  the path and the page's index as the PDF reader enumerates the pages, from 0. Entries a
  version of the loader adds about the file (its producer, its number of pages, a page
  label) are left out; LeaseRAG.py reads \<^verbatim>\<open>page\<close> and \<^verbatim>\<open>source\<close> only.
\<close>

fun enumerate_pages :: "string \<Rightarrow> nat \<Rightarrow> string list \<Rightarrow> document list" where
  "enumerate_pages path i [] = []"
| "enumerate_pages path i (t # ts) =
     \<lparr>page_content = t, metadata = [(''source'', MStr path), (''page'', MInt (int i))]\<rparr>
       # enumerate_pages path (Suc i) ts"

definition PyPDFLoader_load :: "services \<Rightarrow> string \<Rightarrow> (document list) io" where
  "PyPDFLoader_load sv path =
     io_call (LoadPDF path) (map_sum id (enumerate_pages path 0) (read_pdf sv path))"

text \<open>
  \<^verbatim>\<open>split_documents\<close> with \<^verbatim>\<open>add_start_index=True\<close>: each page is cut by
  \<^verbatim>\<open>split_text\<close>; every piece becomes a document with a copy of the page's metadata and
  the index where the piece was found in the page, searched from the previous piece's
  position (\<open>idx\<close>, \<open>prev\<close> are \<^verbatim>\<open>index\<close> and \<^verbatim>\<open>previous_chunk_len\<close>).
\<close>

fun create_documents ::
  "int \<Rightarrow> string \<Rightarrow> (string \<times> meta_value) list \<Rightarrow> int \<Rightarrow> int \<Rightarrow> string list \<Rightarrow> document list" where
  "create_documents overlap txt md idx prev [] = []"
| "create_documents overlap txt md idx prev (piece # pieces) =
     (let offset = idx + prev - overlap;
          idx' = str_find txt piece (max 0 offset)
      in \<lparr>page_content = piece, metadata = AList.update ''start_index'' (MInt idx') md\<rparr>
           # create_documents overlap txt md idx' (int (length piece)) pieces)"

definition split_documents ::
  "(string \<Rightarrow> string list) \<Rightarrow> int \<Rightarrow> document list \<Rightarrow> document list" where
  "split_documents split_text overlap pages =
     concat (map (\<lambda>p. create_documents overlap (page_content p) (metadata p) 0 0
                         (split_text (page_content p))) pages)"

subsection \<open>The retrievers and rank fusion\<close>

text \<open>
  A retriever holds the chunks it indexes and its \<open>k\<close>. Invoked, it returns the first
  \<open>k\<close> chunks of its ranking; the semantic one embeds the question first.
\<close>

datatype retriever =
    BM25Retriever "document list" nat
  | FAISSRetriever "document list" nat

fun retriever_invoke :: "services \<Rightarrow> retriever \<Rightarrow> string \<Rightarrow> (document list) io" where
  "retriever_invoke sv (BM25Retriever docs k) q = io_return (take k (bm25_rank sv docs q))"
| "retriever_invoke sv (FAISSRetriever docs k) q =
     io_call (EmbedQuery q) (map_sum id (take k) (faiss_rank sv docs q))"

fun invoke_all :: "services \<Rightarrow> retriever list \<Rightarrow> string \<Rightarrow> (document list list) io" where
  "invoke_all sv [] q = io_return []"
| "invoke_all sv (r # rs) q =
     io_bind (retriever_invoke sv r q) (\<lambda>docs.
     io_bind (invoke_all sv rs q) (\<lambda>rest.
     io_return (docs # rest)))"

text \<open>
  \<^verbatim>\<open>EnsembleRetriever\<close> with its defaults \<^verbatim>\<open>c = 60\<close> and \<^verbatim>\<open>id_key = None\<close>, so a
  document is identified by its text. LeaseRAG.py passes the two retrievers and the two
  weights and nothing else: the retriever has no limit of its own on what it returns.
\<close>

record EnsembleRetriever =
  retrievers :: "retriever list"
  weights :: "rat list"
  rrf_c :: nat

text \<open>
  The score one ranked list gives to a text: \<open>weight / (rank + c)\<close> for every position
  (ranks from 1) that holds a document with this text.
\<close>

fun list_score :: "rat \<Rightarrow> nat \<Rightarrow> nat \<Rightarrow> document list \<Rightarrow> string \<Rightarrow> rat" where
  "list_score w c rank [] key = 0"
| "list_score w c rank (d # ds) key =
     (if page_content d = key then w / of_nat (rank + c) else 0)
       + list_score w c (Suc rank) ds key"

definition rrf_score :: "nat \<Rightarrow> (document list \<times> rat) list \<Rightarrow> string \<Rightarrow> rat" where
  "rrf_score c scored key = sum_list (map (\<lambda>(ds, w). list_score w c 1 ds key) scored)"

text \<open>\<^verbatim>\<open>unique_by_key\<close>: the first element for every key, in the order of the input.\<close>

fun unique_by_key :: "('a \<Rightarrow> 'k) \<Rightarrow> 'k set \<Rightarrow> 'a list \<Rightarrow> 'a list" where
  "unique_by_key key seen [] = []"
| "unique_by_key key seen (x # xs) =
     (if key x \<in> seen then unique_by_key key seen xs
      else x # unique_by_key key (insert (key x) seen) xs)"

text \<open>
  The documents of all lists, one per text, sorted by descending score; the sort is
  stable, as Python's \<^verbatim>\<open>sorted(..., reverse=True)\<close> is. The code adds the scores as
  floating-point numbers: where two exact scores are equal, the rounded sums of the code
  can differ and order the two documents the other way. Which documents are returned does
  not depend on it.
\<close>

definition fused_docs :: "nat \<Rightarrow> rat list \<Rightarrow> document list list \<Rightarrow> document list" where
  "fused_docs c ws doc_lists =
     sort_key (\<lambda>d. - rrf_score c (zip doc_lists ws) (page_content d))
       (unique_by_key page_content {} (concat doc_lists))"

definition weighted_reciprocal_rank ::
  "EnsembleRetriever \<Rightarrow> document list list \<Rightarrow> exception + document list" where
  "weighted_reciprocal_rank er doc_lists =
     (if length doc_lists \<noteq> length (weights er)
      then Inl (ValueError ''Number of rank lists must be equal to the number of weights.'')
      else Inr (fused_docs (rrf_c er) (weights er) doc_lists))"

definition ensemble_invoke :: "services \<Rightarrow> EnsembleRetriever \<Rightarrow> string \<Rightarrow> (document list) io" where
  "ensemble_invoke sv er q =
     io_bind (invoke_all sv (retrievers er) q) (\<lambda>doc_lists.
     ([], weighted_reciprocal_rank er doc_lists))"

subsection \<open>The retrieval chain\<close>

text \<open>
  The template of \<^verbatim>\<open>_setup_chain\<close>, with its two variables filled in. It is written in
  the method itself; \<^verbatim>\<open>PROMPT_TEMPLATE\<close> and \<^verbatim>\<open>MAX_RESPONSE_SENTENCES\<close> are imported
  by the module and not used.
\<close>

definition template :: "string \<Rightarrow> string \<Rightarrow> string" where
  "template context_text input_text =
     ''Answer the question based ONLY on the context below.'' @ NL @
     ''For every fact, you MUST cite the Page Number found in the metadata.'' @ NL @
     ''Try to answer is a concise manner. No more than 5 sentences.'' @ NL @
     NL @
     ''Context:'' @ NL @
     context_text @ NL @
     NL @
     ''Question: '' @ input_text @ NL @
     ''Answer:''"

record retrieval_chain =
  chain_retriever :: EnsembleRetriever
  chain_prompt :: "string \<Rightarrow> string \<Rightarrow> string"
  chain_model_name :: string
  chain_temperature :: rat

text \<open>The dict the chain returns: the question, the retrieved documents, the answer.\<close>

record response =
  resp_input :: string
  resp_context :: "document list"
  resp_answer :: string

text \<open>
  \<^verbatim>\<open>create_retrieval_chain\<close> over \<^verbatim>\<open>create_stuff_documents_chain\<close>: retrieve, join
  the texts of the retrieved documents with a blank line, fill the prompt, call the model
  once.
\<close>

definition chain_invoke :: "services \<Rightarrow> retrieval_chain \<Rightarrow> string \<Rightarrow> response io" where
  "chain_invoke sv ch q =
     io_bind (ensemble_invoke sv (chain_retriever ch) q) (\<lambda>docs.
     let prompt = chain_prompt ch (str_join (NL @ NL) (map page_content docs)) q in
     io_bind (io_call (Complete prompt)
                (complete sv (chain_model_name ch) (chain_temperature ch) prompt)) (\<lambda>ans.
     io_return \<lparr>resp_input = q, resp_context = docs, resp_answer = ans\<rparr>))"

subsection \<open>class LeaseRAG\<close>

record LeaseRAG =
  pdf_path :: string
  chunk_size :: int
  chunk_overlap :: int
  chunks :: "document list option"
  hybrid_retriever :: "EnsembleRetriever option"
  retriever_chain :: "retrieval_chain option"
  num_chunks :: nat

definition load_and_chunk_document :: "config \<Rightarrow> services \<Rightarrow> LeaseRAG \<Rightarrow> LeaseRAG io" where
  "load_and_chunk_document cfg sv self =
     io_bind (PyPDFLoader_load sv (pdf_path self)) (\<lambda>pages.
     io_bind ([], make_splitter sv (chunk_size self) (chunk_overlap self) (SEPARATORS cfg))
       (\<lambda>split_text.
     let cs = split_documents split_text (chunk_overlap self) pages in
     io_return (self\<lparr>chunks := Some cs, num_chunks := length cs\<rparr>)))"

definition setup_retrievers :: "config \<Rightarrow> services \<Rightarrow> LeaseRAG \<Rightarrow> LeaseRAG io" where
  "setup_retrievers cfg sv self =
     (case chunks self of
        None \<Rightarrow>
          io_raise (OtherException ''TypeError''
                      (CHR 0x27 # ''NoneType' object is not iterable''))
      | Some cs \<Rightarrow>
          io_bind (io_call (EmbedDocuments (map page_content cs))
                     (embed_documents sv (map page_content cs))) (\<lambda>_.
          let faiss_retriever = FAISSRetriever cs (NUM_CHUNKS cfg) in
          io_bind ([], bm25_build sv cs) (\<lambda>_.
          let bm25_retriever = BM25Retriever cs (NUM_CHUNKS cfg) in
          io_return (self\<lparr>hybrid_retriever :=
            Some \<lparr>retrievers = [bm25_retriever, faiss_retriever],
                  weights = [BM25_WEIGHT cfg, FAISS_WEIGHT cfg],
                  rrf_c = 60\<rparr>\<rparr>))))"

definition setup_chain :: "config \<Rightarrow> services \<Rightarrow> LeaseRAG \<Rightarrow> LeaseRAG io" where
  "setup_chain cfg sv self =
     (case hybrid_retriever self of
        None \<Rightarrow>
          io_raise (OtherException ''AttributeError''
                      (CHR 0x27 # ''NoneType' object has no attribute 'with_config''
                         @ [CHR 0x27]))
      | Some er \<Rightarrow>
          io_return (self\<lparr>retriever_chain :=
            Some \<lparr>chain_retriever = er,
                  chain_prompt = template,
                  chain_model_name = MODEL_NAME cfg,
                  chain_temperature = TEMPERATURE cfg\<rparr>\<rparr>))"

text \<open>
  \<^verbatim>\<open>__init__\<close>: the attributes are set, the key is checked, then the three steps run.
  A constructor that raises yields no object.
\<close>

definition new_object :: "config \<Rightarrow> string \<Rightarrow> int option \<Rightarrow> int option \<Rightarrow> LeaseRAG" where
  "new_object cfg path size_arg overlap_arg =
     \<lparr>pdf_path = path,
      chunk_size = py_or size_arg (CHUNK_SIZE cfg),
      chunk_overlap = py_or overlap_arg (CHUNK_OVERLAP cfg),
      chunks = None,
      hybrid_retriever = None,
      retriever_chain = None,
      num_chunks = 0\<rparr>"

definition LeaseRAG_init ::
  "config \<Rightarrow> services \<Rightarrow> string \<Rightarrow> int option \<Rightarrow> int option \<Rightarrow> LeaseRAG io" where
  "LeaseRAG_init cfg sv path size_arg overlap_arg =
     (let self = new_object cfg path size_arg overlap_arg in
      if env_missing sv ''OPENAI_API_KEY''
      then io_raise (ValueError ''OPENAI_API_KEY environment variable not set'')
      else io_bind (load_and_chunk_document cfg sv self) (\<lambda>self.
           io_bind (setup_retrievers cfg sv self) (\<lambda>self.
           setup_chain cfg sv self)))"

record source_entry =
  content :: string
  page :: meta_value
  source :: meta_value

record query_result =
  answer :: string
  sources :: "source_entry list"
  raw_response :: response

definition source_of :: "document \<Rightarrow> source_entry" where
  "source_of doc =
     \<lparr>content = page_content doc,
      page = dict_get (metadata doc) ''page'' (MStr ''Unknown''),
      source = dict_get (metadata doc) ''source'' (MStr ''Unknown'')\<rparr>"

text \<open>
  \<^verbatim>\<open>query\<close> returns the object as it leaves it, the events of the call and the result.
\<close>

definition query :: "services \<Rightarrow> LeaseRAG \<Rightarrow> string \<Rightarrow> LeaseRAG \<times> query_result io" where
  "query sv self question =
     (case retriever_chain self of
        None \<Rightarrow> (self, io_raise (ValueError ''RAG system not initialized''))
      | Some ch \<Rightarrow>
          (self,
           io_bind (chain_invoke sv ch question) (\<lambda>resp.
           io_return \<lparr>answer = resp_answer resp,
                      sources = map source_of (resp_context resp),
                      raw_response = resp\<rparr>)))"

record stats =
  stats_num_chunks :: nat
  stats_chunk_size :: int
  stats_chunk_overlap :: int
  stats_pdf_path :: string

definition get_stats :: "LeaseRAG \<Rightarrow> stats" where
  "get_stats self =
     \<lparr>stats_num_chunks = num_chunks self,
      stats_chunk_size = chunk_size self,
      stats_chunk_overlap = chunk_overlap self,
      stats_pdf_path = pdf_path self\<rparr>"

subsection \<open>Observing a run\<close>

text \<open>The name of an exception's class, as \<^verbatim>\<open>type(e).__name__\<close> gives it.\<close>

definition exception_class :: "exception \<Rightarrow> string" where
  "exception_class e = (case e of ValueError _ \<Rightarrow> ''ValueError'' | OtherException cls _ \<Rightarrow> cls)"

text \<open>The prompts the completion service received, in the order of the calls.\<close>

primrec completion_prompts :: "io_event list \<Rightarrow> string list" where
  "completion_prompts [] = []"
| "completion_prompts (ev # evs) =
     (case ev of Complete p \<Rightarrow> p # completion_prompts evs | _ \<Rightarrow> completion_prompts evs)"

subsection \<open>Example documents and services\<close>

text \<open>
  The two-page lease of the end-to-end scenario: page one states the rent, page two the
  pet rule. The splitter keeps every non-empty page whole, both indexes rank the chunks in
  document order, and the completion service answers with a fixed sentence.
\<close>

definition whole_page_splitter :: "string \<Rightarrow> string list" where
  "whole_page_splitter t = (if t = [] then [] else [t])"

definition scenario_pages :: "string list" where
  "scenario_pages =
     [''The monthly rent is $1500, due on the 1st.'',
      ''Pets are not allowed without written consent.'']"

definition scenario_services :: services where
  "scenario_services =
     \<lparr>environ = (\<lambda>name. if name = ''OPENAI_API_KEY'' then Some ''sk-test'' else None),
      read_pdf = (\<lambda>path. Inr scenario_pages),
      make_splitter = (\<lambda>size overlap seps. Inr whole_page_splitter),
      bm25_build = (\<lambda>docs. Inr ()),
      bm25_rank = (\<lambda>docs q. docs),
      embed_documents = (\<lambda>texts. Inr ()),
      faiss_rank = (\<lambda>docs q. Inr docs),
      complete = (\<lambda>model temp prompt. Inr ''The monthly rent is $1500 (Page 1).'')\<rparr>"

definition rent_chunk :: document where
  "rent_chunk =
     \<lparr>page_content = ''The monthly rent is $1500, due on the 1st.'',
      metadata = [(''source'', MStr ''lease.pdf''), (''page'', MInt 0), (''start_index'', MInt 0)]\<rparr>"

definition pets_chunk :: document where
  "pets_chunk =
     \<lparr>page_content = ''Pets are not allowed without written consent.'',
      metadata = [(''source'', MStr ''lease.pdf''), (''page'', MInt 1), (''start_index'', MInt 0)]\<rparr>"

definition scenario_retriever :: EnsembleRetriever where
  "scenario_retriever =
     \<lparr>retrievers = [BM25Retriever [rent_chunk, pets_chunk] 3,
                     FAISSRetriever [rent_chunk, pets_chunk] 3],
      weights = [3 / 10, 7 / 10],
      rrf_c = 60\<rparr>"

definition scenario_chain :: retrieval_chain where
  "scenario_chain =
     \<lparr>chain_retriever = scenario_retriever,
      chain_prompt = template,
      chain_model_name = ''gpt-3.5-turbo'',
      chain_temperature = 0\<rparr>"

definition scenario_rag :: LeaseRAG where
  "scenario_rag =
     \<lparr>pdf_path = ''lease.pdf'',
      chunk_size = 250,
      chunk_overlap = 50,
      chunks = Some [rent_chunk, pets_chunk],
      hybrid_retriever = Some scenario_retriever,
      retriever_chain =
        Some \<lparr>chain_retriever = scenario_retriever,
              chain_prompt = template,
              chain_model_name = ''gpt-3.5-turbo'',
              chain_temperature = 0\<rparr>,
      num_chunks = 2\<rparr>"

definition scenario_loaded :: LeaseRAG where
  "scenario_loaded =
     \<lparr>pdf_path = ''lease.pdf'', chunk_size = 250, chunk_overlap = 50,
      chunks = Some [rent_chunk, pets_chunk],
      hybrid_retriever = None, retriever_chain = None, num_chunks = 2\<rparr>"

definition rent_question :: string where
  "rent_question = ''How much is the rent?''"

definition scenario_prompt :: string where
  "scenario_prompt =
     ''Answer the question based ONLY on the context below.'' @ NL @
     ''For every fact, you MUST cite the Page Number found in the metadata.'' @ NL @
     ''Try to answer is a concise manner. No more than 5 sentences.'' @ NL @
     NL @
     ''Context:'' @ NL @
     ''The monthly rent is $1500, due on the 1st.'' @ NL @
     NL @
     ''Pets are not allowed without written consent.'' @ NL @
     NL @
     ''Question: How much is the rent?'' @ NL @
     ''Answer:''"

definition scenario_result :: query_result where
  "scenario_result =
     \<lparr>answer = ''The monthly rent is $1500 (Page 1).'',
      sources =
        [\<lparr>content = ''The monthly rent is $1500, due on the 1st.'',
          page = MInt 0, source = MStr ''lease.pdf''\<rparr>,
         \<lparr>content = ''Pets are not allowed without written consent.'',
          page = MInt 1, source = MStr ''lease.pdf''\<rparr>],
      raw_response =
        \<lparr>resp_input = ''How much is the rent?'',
         resp_context = [rent_chunk, pets_chunk],
         resp_answer = ''The monthly rent is $1500 (Page 1).''\<rparr>\<rparr>"

text \<open>
  A five-page lease whose third and fourth page hold the same line. The lexical index
  ranks the rent, the late fee, then the two identical lines (the later page first); the
  semantic index ranks the chunks in document order.
\<close>

definition initials_chunk_p2 :: document where
  "initials_chunk_p2 =
     \<lparr>page_content = ''Tenant initials: ____'',
      metadata = [(''source'', MStr ''lease.pdf''), (''page'', MInt 2), (''start_index'', MInt 0)]\<rparr>"

definition initials_chunk_p3 :: document where
  "initials_chunk_p3 =
     \<lparr>page_content = ''Tenant initials: ____'',
      metadata = [(''source'', MStr ''lease.pdf''), (''page'', MInt 3), (''start_index'', MInt 0)]\<rparr>"

definition fee_chunk :: document where
  "fee_chunk =
     \<lparr>page_content = ''A late fee of $50 applies after the 5th.'',
      metadata = [(''source'', MStr ''lease.pdf''), (''page'', MInt 4), (''start_index'', MInt 0)]\<rparr>"

definition long_pages :: "string list" where
  "long_pages =
     [''The monthly rent is $1500, due on the 1st.'',
      ''Pets are not allowed without written consent.'',
      ''Tenant initials: ____'',
      ''Tenant initials: ____'',
      ''A late fee of $50 applies after the 5th.'']"

definition long_chunks :: "document list" where
  "long_chunks = [rent_chunk, pets_chunk, initials_chunk_p2, initials_chunk_p3, fee_chunk]"

definition long_services :: services where
  "long_services =
     scenario_services
       \<lparr>read_pdf := (\<lambda>path. Inr long_pages),
        bm25_rank := (\<lambda>docs q. case docs of [a, b, c, d, e] \<Rightarrow> [a, e, d, c, b] | _ \<Rightarrow> docs)\<rparr>"

definition long_retriever :: EnsembleRetriever where
  "long_retriever =
     \<lparr>retrievers = [BM25Retriever long_chunks 3, FAISSRetriever long_chunks 3],
      weights = [3 / 10, 7 / 10],
      rrf_c = 60\<rparr>"

definition long_rag :: LeaseRAG where
  "long_rag =
     \<lparr>pdf_path = ''lease.pdf'',
      chunk_size = 250,
      chunk_overlap = 50,
      chunks = Some long_chunks,
      hybrid_retriever = Some long_retriever,
      retriever_chain =
        Some \<lparr>chain_retriever = long_retriever,
              chain_prompt = template,
              chain_model_name = ''gpt-3.5-turbo'',
              chain_temperature = 0\<rparr>,
      num_chunks = 5\<rparr>"

text \<open>
  Variations of the two-page world: no API key; a completion service that fails; a
  semantic index that returns a document without metadata; a semantic index that ranks in
  reverse order, with one chunk per method.
\<close>

definition nokey_services :: services where
  "nokey_services = scenario_services\<lparr>environ := (\<lambda>name. None)\<rparr>"

definition failing_services :: services where
  "failing_services =
     scenario_services
       \<lparr>complete := (\<lambda>model temp prompt. Inl (OtherException ''RateLimitError'' ''quota exceeded''))\<rparr>"

definition unknown_doc :: document where
  "unknown_doc = \<lparr>page_content = ''Parking is by permit only.'', metadata = []\<rparr>"

definition bare_services :: services where
  "bare_services = scenario_services\<lparr>faiss_rank := (\<lambda>docs q. Inr [unknown_doc])\<rparr>"

definition reversed_services :: services where
  "reversed_services = scenario_services\<lparr>faiss_rank := (\<lambda>docs q. Inr (rev docs))\<rparr>"

definition single_config :: config where
  "single_config = default_config\<lparr>NUM_CHUNKS := 1\<rparr>"

definition single_retriever :: EnsembleRetriever where
  "single_retriever =
     \<lparr>retrievers = [BM25Retriever [rent_chunk, pets_chunk] 1,
                     FAISSRetriever [rent_chunk, pets_chunk] 1],
      weights = [3 / 10, 7 / 10],
      rrf_c = 60\<rparr>"

section \<open>Auxiliary facts\<close>

lemmas chunk_defs = rent_chunk_def pets_chunk_def initials_chunk_p2_def initials_chunk_p3_def
  fee_chunk_def

lemma unique_by_key_subset: "set (unique_by_key key seen xs) \<subseteq> set xs"
  by (induction xs arbitrary: seen) auto

lemma unique_by_key_keys: "key ` set (unique_by_key key seen xs) = key ` set xs - seen"
  by (induction xs arbitrary: seen) auto

lemma unique_by_key_distinct: "distinct (map key (unique_by_key key seen xs))"
proof (induction xs arbitrary: seen)
  case Nil
  then show ?case by simp
next
  case (Cons x xs)
  have "key x \<notin> key ` set (unique_by_key key (insert (key x) seen) xs)"
    unfolding unique_by_key_keys by simp
  with Cons show ?case by simp
qed

lemma unique_by_key_length: "length (unique_by_key key seen xs) \<le> length xs"
  by (induction xs arbitrary: seen) (auto intro: le_SucI)

lemma unique_by_key_inj:
  assumes "inj_on key (set xs)"
  shows "set (unique_by_key key {} xs) = set xs"
proof
  show "set (unique_by_key key {} xs) \<subseteq> set xs" by (rule unique_by_key_subset)
  show "set xs \<subseteq> set (unique_by_key key {} xs)"
  proof
    fix x assume x: "x \<in> set xs"
    then have "key x \<in> key ` set (unique_by_key key {} xs)"
      unfolding unique_by_key_keys by simp
    then obtain y where y: "y \<in> set (unique_by_key key {} xs)" "key y = key x" by auto
    from y(1) have "y \<in> set xs"
      using unique_by_key_subset [of key "{}" xs] by (rule subsetD [rotated])
    with assms x y(2) have "y = x" by (auto dest: inj_onD)
    with y(1) show "x \<in> set (unique_by_key key {} xs)" by simp
  qed
qed

lemma unique_by_key_first:
  "set (unique_by_key key seen xs)
     = {d \<in> set xs. key d \<notin> seen \<and> find (\<lambda>y. key y = key d) xs = Some d}"
proof (induction xs arbitrary: seen)
  case Nil
  then show ?case by simp
next
  case (Cons x xs)
  show ?case
  proof (cases "key x \<in> seen")
    case True
    have "set (unique_by_key key seen (x # xs))
        = {d \<in> set xs. key d \<notin> seen \<and> find (\<lambda>y. key y = key d) xs = Some d}"
      using True Cons [of seen] by simp
    also have "\<dots> = {d \<in> set (x # xs). key d \<notin> seen
                      \<and> find (\<lambda>y. key y = key d) (x # xs) = Some d}"
    proof (rule set_eqI)
      fix d
      show "d \<in> {d \<in> set xs. key d \<notin> seen \<and> find (\<lambda>y. key y = key d) xs = Some d}
        \<longleftrightarrow> d \<in> {d \<in> set (x # xs). key d \<notin> seen
                      \<and> find (\<lambda>y. key y = key d) (x # xs) = Some d}"
      proof (cases "key x = key d")
        case k: True
        with True show ?thesis by simp
      next
        case False
        then have "d \<noteq> x" by auto
        with False show ?thesis by simp
      qed
    qed
    finally show ?thesis .
  next
    case False
    have "set (unique_by_key key seen (x # xs))
        = insert x {d \<in> set xs. key d \<notin> insert (key x) seen
                      \<and> find (\<lambda>y. key y = key d) xs = Some d}"
      using False Cons [of "insert (key x) seen"] by simp
    also have "\<dots> = {d \<in> set (x # xs). key d \<notin> seen
                      \<and> find (\<lambda>y. key y = key d) (x # xs) = Some d}"
    proof (rule set_eqI)
      fix d
      show "d \<in> insert x {d \<in> set xs. key d \<notin> insert (key x) seen
                      \<and> find (\<lambda>y. key y = key d) xs = Some d}
        \<longleftrightarrow> d \<in> {d \<in> set (x # xs). key d \<notin> seen
                      \<and> find (\<lambda>y. key y = key d) (x # xs) = Some d}"
      proof (cases "d = x")
        case True
        with False show ?thesis by simp
      next
        case dx: False
        show ?thesis
        proof (cases "key x = key d")
          case True
          with dx show ?thesis by auto
        next
          case kx: False
          with dx show ?thesis by simp
        qed
      qed
    qed
    finally show ?thesis .
  qed
qed

lemma fused_docs_set:
  "set (fused_docs c ws ls) = set (unique_by_key page_content {} (concat ls))"
  by (simp add: fused_docs_def)

lemma fused_docs_length: "length (fused_docs c ws ls) \<le> length (concat ls)"
  by (simp add: fused_docs_def unique_by_key_length)

lemma fused_docs_distinct: "distinct (map page_content (fused_docs c ws ls))"
proof -
  let ?u = "unique_by_key page_content {} (concat ls)"
  have d: "distinct (map page_content ?u)" by (rule unique_by_key_distinct)
  then have "distinct ?u" "inj_on page_content (set ?u)"
    by (simp_all add: distinct_map)
  then show ?thesis
    by (simp add: fused_docs_def distinct_map)
qed

lemma sorted_neg_desc:
  fixes f :: "'a \<Rightarrow> rat"
  assumes "sorted (map (\<lambda>x. - f x) xs)"
  shows "sorted_wrt (\<lambda>a b. b \<le> a) (map f xs)"
  using assms by (induction xs) auto

lemma fused_docs_sorted:
  "sorted_wrt (\<lambda>a b. b \<le> a)
     (map (\<lambda>d. rrf_score c (zip ls ws) (page_content d)) (fused_docs c ws ls))"
  unfolding fused_docs_def by (rule sorted_neg_desc) (rule sorted_sort_key)

lemma io_bind_Inl [simp]: "io_bind (tr, Inl e) f = (tr, Inl e)"
  by (simp add: io_bind_def)

lemma io_bind_Inr [simp]: "io_bind (tr, Inr x) f = (tr @ fst (f x), snd (f x))"
  by (simp add: io_bind_def split: prod.splits)

lemma io_bind_return [simp]: "io_bind (io_return x) f = f x"
  by (simp add: io_return_def)

lemma ensemble_invoke_pair:
  assumes "retrievers er = [BM25Retriever cs k, FAISSRetriever cs' k']"
      and "length (weights er) = 2"
  shows "ensemble_invoke sv er q =
     ([EmbedQuery q],
      map_sum id (\<lambda>ranking. fused_docs (rrf_c er) (weights er)
                     [take k (bm25_rank sv cs q), take k' ranking]) (faiss_rank sv cs' q))"
  using assms
  by (cases "faiss_rank sv cs' q")
     (simp_all add: ensemble_invoke_def weighted_reciprocal_rank_def io_call_def io_return_def)

lemma setup_retrievers_Inr:
  assumes "setup_retrievers cfg sv self = (tr, Inr self')"
  shows "\<exists>cs. chunks self = Some cs \<and>
           self' = self\<lparr>hybrid_retriever :=
             Some \<lparr>retrievers = [BM25Retriever cs (NUM_CHUNKS cfg), FAISSRetriever cs (NUM_CHUNKS cfg)],
                   weights = [BM25_WEIGHT cfg, FAISS_WEIGHT cfg],
                   rrf_c = 60\<rparr>\<rparr>"
proof (cases "chunks self")
  case None
  with assms show ?thesis by (simp add: setup_retrievers_def io_raise_def)
next
  case (Some cs)
  with assms show ?thesis
    by (cases "embed_documents sv (map page_content cs)"; cases "bm25_build sv cs")
       (auto simp: setup_retrievers_def io_call_def io_return_def Let_def)
qed

lemma py_or_zero: "py_or (Some 0) d = py_or None d"
  by (simp add: py_or_def)

lemma load_and_chunk_fields:
  assumes "load_and_chunk_document cfg sv self = (tr, Inr self')"
  shows "chunk_size self' = chunk_size self \<and> chunk_overlap self' = chunk_overlap self
       \<and> pdf_path self' = pdf_path self"
  using assms
  by (cases "read_pdf sv (pdf_path self)";
      cases "make_splitter sv (chunk_size self) (chunk_overlap self) (SEPARATORS cfg)")
     (auto simp: load_and_chunk_document_def PyPDFLoader_load_def io_call_def io_return_def Let_def)

lemma setup_retrievers_fields:
  assumes "setup_retrievers cfg sv self = (tr, Inr self')"
  shows "chunk_size self' = chunk_size self \<and> chunk_overlap self' = chunk_overlap self
       \<and> pdf_path self' = pdf_path self"
  using setup_retrievers_Inr [OF assms] by auto

lemma setup_chain_Inr:
  assumes "setup_chain cfg sv self = (tr, Inr self')"
  shows "\<exists>er. hybrid_retriever self = Some er \<and> tr = [] \<and>
           self' = self\<lparr>retriever_chain :=
             Some \<lparr>chain_retriever = er, chain_prompt = template,
                   chain_model_name = MODEL_NAME cfg, chain_temperature = TEMPERATURE cfg\<rparr>\<rparr>"
  using assms
  by (cases "hybrid_retriever self") (auto simp: setup_chain_def io_raise_def io_return_def)

lemma io_bind_InrE:
  assumes "io_bind m f = (tr, Inr y)"
  obtains tr1 x tr2 where "m = (tr1, Inr x)" "f x = (tr2, Inr y)" "tr = tr1 @ tr2"
  using assms
  by (cases m; cases "snd m") (auto simp: io_bind_def split: prod.splits)

lemma init_Inr:
  assumes "LeaseRAG_init cfg sv path a b = (tr, Inr self)"
  obtains tr1 tr2 tr3 s1 s2 where
    "\<not> env_missing sv ''OPENAI_API_KEY''"
    "load_and_chunk_document cfg sv (new_object cfg path a b) = (tr1, Inr s1)"
    "setup_retrievers cfg sv s1 = (tr2, Inr s2)"
    "setup_chain cfg sv s2 = (tr3, Inr self)"
    "tr = tr1 @ tr2 @ tr3"
proof -
  from assms have k: "\<not> env_missing sv ''OPENAI_API_KEY''"
    by (auto simp: LeaseRAG_init_def Let_def io_raise_def split: if_splits)
  with assms have
    "io_bind (load_and_chunk_document cfg sv (new_object cfg path a b)) (\<lambda>self.
       io_bind (setup_retrievers cfg sv self) (\<lambda>self. setup_chain cfg sv self)) = (tr, Inr self)"
    by (simp add: LeaseRAG_init_def Let_def)
  then obtain tr1 s1 tr' where 1: "load_and_chunk_document cfg sv (new_object cfg path a b) = (tr1, Inr s1)"
    and 2: "io_bind (setup_retrievers cfg sv s1) (\<lambda>self. setup_chain cfg sv self) = (tr', Inr self)"
    and t: "tr = tr1 @ tr'"
    by (rule io_bind_InrE)
  from 2 obtain tr2 s2 tr3 where 3: "setup_retrievers cfg sv s1 = (tr2, Inr s2)"
    and 4: "setup_chain cfg sv s2 = (tr3, Inr self)" and t': "tr' = tr2 @ tr3"
    by (rule io_bind_InrE)
  from k 1 3 4 t t' show ?thesis by (auto intro: that)
qed

lemma init_chain:
  assumes "LeaseRAG_init cfg sv path a b = (tr, Inr self)"
  shows "\<exists>ch er. retriever_chain self = Some ch \<and> hybrid_retriever self = Some er
           \<and> chain_retriever ch = er \<and> chain_prompt ch = template"
proof -
  from assms obtain tr3 s2 where "setup_chain cfg sv s2 = (tr3, Inr self)"
    by (rule init_Inr)
  from setup_chain_Inr [OF this] show ?thesis by auto
qed

lemma init_fields:
  assumes "LeaseRAG_init cfg sv path a b = (tr, Inr self)"
  shows "chunk_size self = py_or a (CHUNK_SIZE cfg) \<and> chunk_overlap self = py_or b (CHUNK_OVERLAP cfg)
       \<and> pdf_path self = path"
proof -
  from assms obtain tr1 tr2 tr3 s1 s2 where
    1: "load_and_chunk_document cfg sv (new_object cfg path a b) = (tr1, Inr s1)" and
    2: "setup_retrievers cfg sv s1 = (tr2, Inr s2)" and
    3: "setup_chain cfg sv s2 = (tr3, Inr self)"
    by (rule init_Inr)
  from setup_chain_Inr [OF 3] load_and_chunk_fields [OF 1] setup_retrievers_fields [OF 2]
  show ?thesis by (auto simp: new_object_def)
qed

lemma scenario_chunks:
  "split_documents whole_page_splitter 50 (enumerate_pages ''lease.pdf'' 0 scenario_pages)
     = [rent_chunk, pets_chunk]"
  by (simp add: split_documents_def whole_page_splitter_def scenario_pages_def rent_chunk_def
        pets_chunk_def str_find_def)

lemma scenario_init:
  "LeaseRAG_init default_config scenario_services ''lease.pdf'' None None =
     ([LoadPDF ''lease.pdf'',
       EmbedDocuments [''The monthly rent is $1500, due on the 1st.'',
                       ''Pets are not allowed without written consent.'']],
      Inr scenario_rag)"
  by (simp add: LeaseRAG_init_def new_object_def env_missing_def scenario_services_def
        load_and_chunk_document_def PyPDFLoader_load_def setup_retrievers_def setup_chain_def
        io_call_def io_return_def io_raise_def default_config_def py_or_def scenario_chunks
        scenario_rag_def scenario_retriever_def Let_def)
     (simp add: rent_chunk_def pets_chunk_def)

lemma scenario_fused:
  "fused_docs 60 [3 / 10, 7 / 10] [[rent_chunk, pets_chunk], [rent_chunk, pets_chunk]]
     = [rent_chunk, pets_chunk]"
  by (simp add: fused_docs_def rrf_score_def rent_chunk_def pets_chunk_def)

lemma scenario_retrieve:
  "ensemble_invoke scenario_services scenario_retriever q =
     ([EmbedQuery q], Inr [rent_chunk, pets_chunk])"
  by (simp add: ensemble_invoke_pair [where cs = "[rent_chunk, pets_chunk]" and k = 3
          and cs' = "[rent_chunk, pets_chunk]" and k' = 3] scenario_retriever_def)
     (simp add: scenario_services_def scenario_fused)

lemma long_split:
  "split_documents whole_page_splitter 50 (enumerate_pages ''lease.pdf'' 0 long_pages)
     = long_chunks"
  by (simp add: split_documents_def whole_page_splitter_def long_pages_def long_chunks_def
        chunk_defs str_find_def)

lemma long_init:
  "LeaseRAG_init default_config long_services ''lease.pdf'' None None =
     ([LoadPDF ''lease.pdf'', EmbedDocuments long_pages], Inr long_rag)"
  by (simp add: LeaseRAG_init_def new_object_def env_missing_def scenario_services_def
        long_services_def
        load_and_chunk_document_def PyPDFLoader_load_def setup_retrievers_def setup_chain_def
        io_call_def io_return_def io_raise_def default_config_def py_or_def long_split
        long_rag_def long_retriever_def Let_def)
     (simp add: long_chunks_def long_pages_def chunk_defs)

lemma long_fused:
  "fused_docs 60 [3 / 10, 7 / 10]
     [[rent_chunk, fee_chunk, initials_chunk_p3], [rent_chunk, pets_chunk, initials_chunk_p2]]
     = [rent_chunk, initials_chunk_p3, pets_chunk, fee_chunk]"
  by (simp add: fused_docs_def rrf_score_def chunk_defs)

lemma long_lexical:
  "take 3 (bm25_rank long_services long_chunks q) = [rent_chunk, fee_chunk, initials_chunk_p3]"
  by (simp add: long_services_def long_chunks_def)

lemma long_semantic:
  "faiss_rank long_services long_chunks q = Inr long_chunks"
  by (simp add: long_services_def scenario_services_def)

lemma long_retrieve:
  "ensemble_invoke long_services long_retriever q =
     ([EmbedQuery q], Inr [rent_chunk, initials_chunk_p3, pets_chunk, fee_chunk])"
  by (simp add: ensemble_invoke_pair [where cs = long_chunks and k = 3
          and cs' = long_chunks and k' = 3] long_retriever_def long_lexical long_semantic)
     (simp add: long_chunks_def long_fused)

lemma hybrid_invoke:
  assumes "setup_retrievers cfg sv self = (tr, Inr self')"
      and "chunks self = Some cs"
      and "faiss_rank sv cs q = Inr ranking"
  shows "\<exists>er. hybrid_retriever self' = Some er \<and>
           ensemble_invoke sv er q =
             ([EmbedQuery q],
              Inr (fused_docs 60 [BM25_WEIGHT cfg, FAISS_WEIGHT cfg]
                     [take (NUM_CHUNKS cfg) (bm25_rank sv cs q), take (NUM_CHUNKS cfg) ranking]))"
proof -
  let ?er = "\<lparr>retrievers = [BM25Retriever cs (NUM_CHUNKS cfg), FAISSRetriever cs (NUM_CHUNKS cfg)],
              weights = [BM25_WEIGHT cfg, FAISS_WEIGHT cfg], rrf_c = 60\<rparr>"
  from setup_retrievers_Inr [OF assms(1)] assms(2)
  have h: "hybrid_retriever self' = Some ?er" by auto
  have "ensemble_invoke sv ?er q =
     ([EmbedQuery q],
      map_sum id (\<lambda>ranking. fused_docs (rrf_c ?er) (weights ?er)
         [take (NUM_CHUNKS cfg) (bm25_rank sv cs q), take (NUM_CHUNKS cfg) ranking])
        (faiss_rank sv cs q))"
    by (rule ensemble_invoke_pair) simp_all
  with assms(3) h show ?thesis by simp
qed

lemma completion_prompts_append [simp]:
  "completion_prompts (xs @ ys) = completion_prompts xs @ completion_prompts ys"
  by (induction xs) (auto split: io_event.splits)

lemma retriever_invoke_prompts: "completion_prompts (fst (retriever_invoke sv r q)) = []"
  by (cases r) (simp_all add: io_return_def io_call_def)

lemma io_bind_fst:
  "fst (io_bind m f) = (case snd m of Inl e \<Rightarrow> fst m | Inr x \<Rightarrow> fst m @ fst (f x))"
  by (cases m; cases "snd m") (auto simp: io_bind_def split: prod.splits)

lemma invoke_all_prompts: "completion_prompts (fst (invoke_all sv rs q)) = []"
proof (induction rs)
  case Nil
  then show ?case by (simp add: io_return_def)
next
  case (Cons r rs)
  then show ?case
    by (simp add: io_bind_fst retriever_invoke_prompts io_return_def split: sum.splits)
qed

lemma ensemble_invoke_prompts: "completion_prompts (fst (ensemble_invoke sv er q)) = []"
  by (simp add: ensemble_invoke_def io_bind_fst invoke_all_prompts split: sum.splits)

lemma chain_invoke_Inr:
  assumes "chain_invoke sv ch q = (tr, Inr resp)"
  obtains tr0 docs ans where
    "ensemble_invoke sv (chain_retriever ch) q = (tr0, Inr docs)"
    "complete sv (chain_model_name ch) (chain_temperature ch)
       (chain_prompt ch (str_join (NL @ NL) (map page_content docs)) q) = Inr ans"
    "tr = tr0 @ [Complete (chain_prompt ch (str_join (NL @ NL) (map page_content docs)) q)]"
    "resp = \<lparr>resp_input = q, resp_context = docs, resp_answer = ans\<rparr>"
proof -
  from assms obtain tr0 docs tr1 where
    1: "ensemble_invoke sv (chain_retriever ch) q = (tr0, Inr docs)" and
    2: "(let prompt = chain_prompt ch (str_join (NL @ NL) (map page_content docs)) q in
         io_bind (io_call (Complete prompt)
                (complete sv (chain_model_name ch) (chain_temperature ch) prompt)) (\<lambda>ans.
         io_return \<lparr>resp_input = q, resp_context = docs, resp_answer = ans\<rparr>)) = (tr1, Inr resp)" and
    3: "tr = tr0 @ tr1"
    unfolding chain_invoke_def by (rule io_bind_InrE)
  let ?p = "chain_prompt ch (str_join (NL @ NL) (map page_content docs)) q"
  from 2 obtain ans where
    4: "complete sv (chain_model_name ch) (chain_temperature ch) ?p = Inr ans" and
    5: "tr1 = [Complete ?p]" and
    6: "resp = \<lparr>resp_input = q, resp_context = docs, resp_answer = ans\<rparr>"
    by (cases "complete sv (chain_model_name ch) (chain_temperature ch) ?p")
       (auto simp: Let_def io_call_def io_return_def)
  from 1 4 5 6 3 show ?thesis by (auto intro: that)
qed

lemma query_Inr:
  assumes "query sv self question = (self', tr, Inr r)"
  obtains ch resp where "retriever_chain self = Some ch" "chain_invoke sv ch question = (tr, Inr resp)"
    "r = \<lparr>answer = resp_answer resp, sources = map source_of (resp_context resp), raw_response = resp\<rparr>"
    "self' = self"
proof (cases "retriever_chain self")
  case None
  with assms show ?thesis by (simp add: query_def io_raise_def)
next
  case (Some ch)
  with assms have
    "io_bind (chain_invoke sv ch question) (\<lambda>resp.
       io_return \<lparr>answer = resp_answer resp, sources = map source_of (resp_context resp),
                  raw_response = resp\<rparr>) = (tr, Inr r)" and s: "self' = self"
    by (simp_all add: query_def)
  then obtain tr1 resp tr2 where 1: "chain_invoke sv ch question = (tr1, Inr resp)"
    and 2: "io_return \<lparr>answer = resp_answer resp, sources = map source_of (resp_context resp),
                  raw_response = resp\<rparr> = (tr2, Inr r)" and 3: "tr = tr1 @ tr2"
    by (auto elim: io_bind_InrE)
  from 2 3 have "tr = tr1" and
    "r = \<lparr>answer = resp_answer resp, sources = map source_of (resp_context resp), raw_response = resp\<rparr>"
    by (auto simp: io_return_def)
  with Some 1 s show ?thesis by (auto intro: that)
qed

lemma create_documents_pages:
  "map (\<lambda>c. (content (source_of c), page (source_of c)))
       (create_documents overlap txt md idx prev pieces)
     = map (\<lambda>piece. (piece, dict_get md ''page'' (MStr ''Unknown''))) pieces"
  by (induction pieces arbitrary: idx prev)
     (simp_all add: Let_def source_of_def dict_get_def update_conv')

lemma split_enumerated_pages:
  "map (\<lambda>c. (content (source_of c), page (source_of c)))
       (split_documents split_text overlap (enumerate_pages path k texts))
     = concat (map (\<lambda>i. map (\<lambda>piece. (piece, MInt (int (k + i)))) (split_text (texts ! i)))
                 [0..<length texts])"
proof (induction texts arbitrary: k)
  case Nil
  then show ?case by (simp add: split_documents_def)
next
  case (Cons t ts)
  have up: "[0..<length (t # ts)] = 0 # map Suc [0..<length ts]"
    by (simp add: upt_conv_Cons map_Suc_upt del: upt_Suc)
  have "map (\<lambda>c. (content (source_of c), page (source_of c)))
       (split_documents split_text overlap (enumerate_pages path k (t # ts)))
     = map (\<lambda>piece. (piece, MInt (int k))) (split_text t)
        @ map (\<lambda>c. (content (source_of c), page (source_of c)))
            (split_documents split_text overlap (enumerate_pages path (Suc k) ts))"
    by (simp add: split_documents_def create_documents_pages dict_get_def)
  also have "\<dots> = map (\<lambda>piece. (piece, MInt (int k))) (split_text t)
        @ concat (map (\<lambda>i. map (\<lambda>piece. (piece, MInt (int (Suc k + i)))) (split_text (ts ! i)))
                 [0..<length ts])"
    by (simp only: Cons.IH)
  also have "\<dots> = concat (map (\<lambda>i. map (\<lambda>piece. (piece, MInt (int (k + i)))) (split_text ((t # ts) ! i)))
                 [0..<length (t # ts)])"
    unfolding up by (simp add: comp_def add.commute add.left_commute)
  finally show ?case .
qed

lemma scenario_rag_chain: "retriever_chain scenario_rag = Some scenario_chain"
  by (simp add: scenario_rag_def scenario_chain_def)

lemma scenario_query:
  "query scenario_services scenario_rag rent_question =
     (scenario_rag, [EmbedQuery rent_question, Complete scenario_prompt], Inr scenario_result)"
  apply (simp add: query_def scenario_rag_chain chain_invoke_def scenario_chain_def
      scenario_retrieve io_call_def io_return_def Let_def)
  apply (simp add: scenario_services_def scenario_result_def source_of_def dict_get_def
      chunk_defs rent_question_def template_def scenario_prompt_def)
  done

lemma init_reads_only:
  assumes "CHUNK_SIZE cfg' = CHUNK_SIZE cfg" "CHUNK_OVERLAP cfg' = CHUNK_OVERLAP cfg"
      and "SEPARATORS cfg' = SEPARATORS cfg" "NUM_CHUNKS cfg' = NUM_CHUNKS cfg"
      and "BM25_WEIGHT cfg' = BM25_WEIGHT cfg" "FAISS_WEIGHT cfg' = FAISS_WEIGHT cfg"
      and "MODEL_NAME cfg' = MODEL_NAME cfg" "TEMPERATURE cfg' = TEMPERATURE cfg"
  shows "LeaseRAG_init cfg' sv path a b = LeaseRAG_init cfg sv path a b"
proof -
  have 1: "load_and_chunk_document cfg' sv s = load_and_chunk_document cfg sv s" for s
    using assms by (simp add: load_and_chunk_document_def)
  have 2: "setup_retrievers cfg' sv s = setup_retrievers cfg sv s" for s
    using assms by (cases "chunks s") (simp_all add: setup_retrievers_def)
  have "setup_chain cfg' sv s = setup_chain cfg sv s" for s
    using assms by (cases "hybrid_retriever s") (simp_all add: setup_chain_def)
  then have 3: "setup_chain cfg' sv = setup_chain cfg sv" by (rule ext)
  show ?thesis
    using assms by (simp add: LeaseRAG_init_def new_object_def 1 2 3)
qed

lemma scenario_load:
  "load_and_chunk_document default_config scenario_services
     (new_object default_config ''lease.pdf'' None None)
     = ([LoadPDF ''lease.pdf''], Inr scenario_loaded)"
  by (simp add: new_object_def scenario_services_def
        load_and_chunk_document_def PyPDFLoader_load_def
        io_call_def io_return_def default_config_def py_or_def scenario_chunks
        scenario_loaded_def Let_def)

lemma scenario_setup:
  "setup_retrievers default_config scenario_services scenario_loaded
     = ([EmbedDocuments (map page_content [rent_chunk, pets_chunk])],
        Inr (scenario_loaded\<lparr>hybrid_retriever := Some scenario_retriever\<rparr>))"
  by (simp add: setup_retrievers_def scenario_loaded_def scenario_services_def io_call_def
        io_return_def default_config_def scenario_retriever_def)

lemma single_setup:
  "setup_retrievers single_config reversed_services scenario_loaded
     = ([EmbedDocuments (map page_content [rent_chunk, pets_chunk])],
        Inr (scenario_loaded\<lparr>hybrid_retriever := Some single_retriever\<rparr>))"
  by (simp add: setup_retrievers_def scenario_loaded_def scenario_services_def io_call_def
        io_return_def default_config_def single_retriever_def single_config_def
        reversed_services_def)

lemma bare_retrieve:
  "ensemble_invoke bare_services scenario_retriever q
     = ([EmbedQuery q], Inr [unknown_doc, rent_chunk, pets_chunk])"
  by (simp add: ensemble_invoke_pair [where cs = "[rent_chunk, pets_chunk]"
          and k = 3 and cs' = "[rent_chunk, pets_chunk]" and k' = 3] scenario_retriever_def)
     (simp add: bare_services_def scenario_services_def fused_docs_def rrf_score_def chunk_defs
        unknown_doc_def)

lemma bare_chain:
  "chain_invoke bare_services scenario_chain rent_question
     = ([EmbedQuery rent_question,
         Complete (template (str_join (NL @ NL)
                     (map page_content [unknown_doc, rent_chunk, pets_chunk])) rent_question)],
        Inr \<lparr>resp_input = rent_question,
             resp_context = [unknown_doc, rent_chunk, pets_chunk],
             resp_answer = ''The monthly rent is $1500 (Page 1).''\<rparr>)"
  by (simp add: chain_invoke_def scenario_chain_def bare_retrieve io_call_def io_return_def
        Let_def)
     (simp add: bare_services_def scenario_services_def)

section \<open>The claims\<close>

subsection \<open>C1: the candidates of the hybrid retriever\<close>

text \<open>
  Claim C1, as the code has it. For the hybrid retriever that \<^verbatim>\<open>_setup_retrievers\<close>
  builds and for every question, the fused list holds only chunks of the two ranked lists
  (the first \<open>NUM_CHUNKS\<close> of each ranking), and every text found by either method is
  in it, also when the two lists are disjoint. The fusion identifies chunks by their text
  and keeps the first occurrence, the lexical list first: the fused set is the set of the
  chunks that are the first with their text in the lexical list followed by the semantic
  list. When no two different chunks of the two lists share a text, the fused set is
  exactly the union of the two lists.
\<close>

theorem hybrid_candidates:
  assumes "setup_retrievers cfg sv self = (tr, Inr self')"
      and "chunks self = Some cs"
      and "faiss_rank sv cs q = Inr ranking"
  shows "\<exists>er fused. hybrid_retriever self' = Some er
      \<and> ensemble_invoke sv er q = ([EmbedQuery q], Inr fused)
      \<and> set fused \<subseteq> set (take (NUM_CHUNKS cfg) (bm25_rank sv cs q))
                       \<union> set (take (NUM_CHUNKS cfg) ranking)
      \<and> page_content ` set fused =
          page_content ` (set (take (NUM_CHUNKS cfg) (bm25_rank sv cs q))
                            \<union> set (take (NUM_CHUNKS cfg) ranking))
      \<and> set fused =
          {d \<in> set (take (NUM_CHUNKS cfg) (bm25_rank sv cs q) @ take (NUM_CHUNKS cfg) ranking).
             find (\<lambda>y. page_content y = page_content d)
               (take (NUM_CHUNKS cfg) (bm25_rank sv cs q) @ take (NUM_CHUNKS cfg) ranking)
             = Some d}
      \<and> (inj_on page_content (set (take (NUM_CHUNKS cfg) (bm25_rank sv cs q))
                                   \<union> set (take (NUM_CHUNKS cfg) ranking))
           \<longrightarrow> set fused = set (take (NUM_CHUNKS cfg) (bm25_rank sv cs q))
                                \<union> set (take (NUM_CHUNKS cfg) ranking))"
proof -
  let ?lex = "take (NUM_CHUNKS cfg) (bm25_rank sv cs q)"
  let ?sem = "take (NUM_CHUNKS cfg) ranking"
  let ?fused = "fused_docs 60 [BM25_WEIGHT cfg, FAISS_WEIGHT cfg] [?lex, ?sem]"
  from hybrid_invoke [OF assms] obtain er where
    er: "hybrid_retriever self' = Some er" "ensemble_invoke sv er q = ([EmbedQuery q], Inr ?fused)"
    by blast
  have s: "set ?fused = set (unique_by_key page_content {} (?lex @ ?sem))"
    by (simp add: fused_docs_set)
  have 1: "set ?fused \<subseteq> set ?lex \<union> set ?sem"
    unfolding s using unique_by_key_subset [of page_content "{}" "?lex @ ?sem"] by simp
  have 2: "page_content ` set ?fused = page_content ` (set ?lex \<union> set ?sem)"
    unfolding s by (simp add: unique_by_key_keys)
  have 3: "set ?fused = set ?lex \<union> set ?sem" if "inj_on page_content (set ?lex \<union> set ?sem)"
    unfolding s using unique_by_key_inj [of page_content "?lex @ ?sem"] that by simp
  have 4: "set ?fused =
      {d \<in> set (?lex @ ?sem). find (\<lambda>y. page_content y = page_content d) (?lex @ ?sem) = Some d}"
    unfolding s using unique_by_key_first [of page_content "{}" "?lex @ ?sem"] by simp
  from er 1 2 3 4 show ?thesis by blast
qed

text \<open>
  Claim C1, an instance: one chunk per method, the lexical list holds the rent chunk and
  the semantic list the pets chunk. The lists are disjoint and both chunks are returned.
\<close>

theorem hybrid_candidates_witness:
  "setup_retrievers single_config reversed_services scenario_loaded
     = ([EmbedDocuments (map page_content [rent_chunk, pets_chunk])],
        Inr (scenario_loaded\<lparr>hybrid_retriever := Some single_retriever\<rparr>))
   \<and> take (NUM_CHUNKS single_config)
        (bm25_rank reversed_services [rent_chunk, pets_chunk] rent_question) = [rent_chunk]
   \<and> faiss_rank reversed_services [rent_chunk, pets_chunk] rent_question
        = Inr [pets_chunk, rent_chunk]
   \<and> (\<exists>fused. ensemble_invoke reversed_services single_retriever rent_question
                  = ([EmbedQuery rent_question], Inr fused)
              \<and> set fused = {rent_chunk, pets_chunk})"
proof -
  have c: "chunks scenario_loaded = Some [rent_chunk, pets_chunk]"
    by (simp add: scenario_loaded_def)
  have l: "take (NUM_CHUNKS single_config)
        (bm25_rank reversed_services [rent_chunk, pets_chunk] rent_question) = [rent_chunk]"
    by (simp add: single_config_def reversed_services_def scenario_services_def)
  have f: "faiss_rank reversed_services [rent_chunk, pets_chunk] rent_question
        = Inr [pets_chunk, rent_chunk]"
    by (simp add: reversed_services_def)
  have s: "take (NUM_CHUNKS single_config) [pets_chunk, rent_chunk] = [pets_chunk]"
    by (simp add: single_config_def)
  have i: "inj_on page_content (set [rent_chunk] \<union> set [pets_chunk])"
    by (simp add: chunk_defs)
  from hybrid_candidates [OF single_setup c f]
  obtain er fused where
    h: "hybrid_retriever (scenario_loaded\<lparr>hybrid_retriever := Some single_retriever\<rparr>) = Some er"
    and e: "ensemble_invoke reversed_services er rent_question
              = ([EmbedQuery rent_question], Inr fused)"
    and u: "inj_on page_content
              (set (take (NUM_CHUNKS single_config)
                      (bm25_rank reversed_services [rent_chunk, pets_chunk] rent_question))
               \<union> set (take (NUM_CHUNKS single_config) [pets_chunk, rent_chunk]))
            \<longrightarrow> set fused =
              set (take (NUM_CHUNKS single_config)
                      (bm25_rank reversed_services [rent_chunk, pets_chunk] rent_question))
               \<union> set (take (NUM_CHUNKS single_config) [pets_chunk, rent_chunk])"
    by blast
  from h have er: "er = single_retriever" by simp
  from u i have "set fused = {rent_chunk, pets_chunk}"
    unfolding l s by auto
  with e er have "\<exists>fused. ensemble_invoke reversed_services single_retriever rent_question
                  = ([EmbedQuery rent_question], Inr fused)
              \<and> set fused = {rent_chunk, pets_chunk}"
    by blast
  with single_setup l f show ?thesis by blast
qed

text \<open>
  Claim C1 as stated fails on the five-page lease: the semantic method alone finds the
  line of page 2, the lexical method finds the same line on page 3, and the fused list
  keeps the chunk of page 3 only. The chunk of page 2 is in a method's list and not in the
  result.
\<close>

theorem hybrid_drops_repeated_text:
  "LeaseRAG_init default_config long_services ''lease.pdf'' None None =
     ([LoadPDF ''lease.pdf'', EmbedDocuments long_pages], Inr long_rag)
   \<and> hybrid_retriever long_rag = Some long_retriever
   \<and> take 3 (bm25_rank long_services long_chunks ''How much is the rent?'')
        = [rent_chunk, fee_chunk, initials_chunk_p3]
   \<and> map_sum id (take 3) (faiss_rank long_services long_chunks ''How much is the rent?'')
        = Inr [rent_chunk, pets_chunk, initials_chunk_p2]
   \<and> snd (ensemble_invoke long_services long_retriever ''How much is the rent?'')
        = Inr [rent_chunk, initials_chunk_p3, pets_chunk, fee_chunk]
   \<and> initials_chunk_p2 \<notin> set [rent_chunk, fee_chunk, initials_chunk_p3]
   \<and> initials_chunk_p2 \<notin> set [rent_chunk, initials_chunk_p3, pets_chunk, fee_chunk]"
proof (intro conjI)
  show "initials_chunk_p2 \<notin> set [rent_chunk, fee_chunk, initials_chunk_p3]"
    by (simp add: chunk_defs)
  show "initials_chunk_p2 \<notin> set [rent_chunk, initials_chunk_p3, pets_chunk, fee_chunk]"
    by (simp add: chunk_defs)
  show "map_sum id (take 3) (faiss_rank long_services long_chunks ''How much is the rent?'')
        = Inr [rent_chunk, pets_chunk, initials_chunk_p2]"
    by (simp add: long_semantic) (simp add: long_chunks_def)
qed (simp_all add: long_init long_rag_def long_lexical long_retrieve)

subsection \<open>C2: the shape of the fused result\<close>

text \<open>
  Claim C2, as the code has it. The fused list is at most twice \<open>NUM_CHUNKS\<close> long
  (each method contributes at most \<open>NUM_CHUNKS\<close> chunks, and the fused list is not
  cut), its fused scores do not increase from the first to the last element, and no two
  of its chunks have the same text, so it has no duplicate.
\<close>

theorem hybrid_result_shape:
  assumes "setup_retrievers cfg sv self = (tr, Inr self')"
      and "chunks self = Some cs"
      and "faiss_rank sv cs q = Inr ranking"
  shows "\<exists>er fused. hybrid_retriever self' = Some er
      \<and> ensemble_invoke sv er q = ([EmbedQuery q], Inr fused)
      \<and> length fused \<le> 2 * NUM_CHUNKS cfg
      \<and> sorted_wrt (\<lambda>a b. b \<le> a)
           (map (\<lambda>d. rrf_score 60
                        [(take (NUM_CHUNKS cfg) (bm25_rank sv cs q), BM25_WEIGHT cfg),
                         (take (NUM_CHUNKS cfg) ranking, FAISS_WEIGHT cfg)]
                        (page_content d)) fused)
      \<and> distinct (map page_content fused)
      \<and> distinct fused"
proof -
  let ?lex = "take (NUM_CHUNKS cfg) (bm25_rank sv cs q)"
  let ?sem = "take (NUM_CHUNKS cfg) ranking"
  let ?ws = "[BM25_WEIGHT cfg, FAISS_WEIGHT cfg]"
  let ?fused = "fused_docs 60 ?ws [?lex, ?sem]"
  from hybrid_invoke [OF assms] obtain er where
    er: "hybrid_retriever self' = Some er" "ensemble_invoke sv er q = ([EmbedQuery q], Inr ?fused)"
    by blast
  have "length ?fused \<le> length (concat [?lex, ?sem])" by (rule fused_docs_length)
  then have 1: "length ?fused \<le> 2 * NUM_CHUNKS cfg" by simp
  have 2: "sorted_wrt (\<lambda>a b. b \<le> a)
       (map (\<lambda>d. rrf_score 60 [(?lex, BM25_WEIGHT cfg), (?sem, FAISS_WEIGHT cfg)] (page_content d))
          ?fused)"
    using fused_docs_sorted [of 60 "[?lex, ?sem]" ?ws] by simp
  have 3: "distinct (map page_content ?fused)" by (rule fused_docs_distinct)
  then have 4: "distinct ?fused" by (simp add: distinct_map)
  from er 1 2 3 4 show ?thesis by blast
qed

text \<open>
  Claim C2, an instance: the two-page lease under the default configuration.
\<close>

theorem hybrid_result_shape_witness:
  "setup_retrievers default_config scenario_services scenario_loaded
     = ([EmbedDocuments (map page_content [rent_chunk, pets_chunk])],
        Inr (scenario_loaded\<lparr>hybrid_retriever := Some scenario_retriever\<rparr>))
   \<and> faiss_rank scenario_services [rent_chunk, pets_chunk] rent_question
        = Inr [rent_chunk, pets_chunk]
   \<and> (\<exists>fused. ensemble_invoke scenario_services scenario_retriever rent_question
                  = ([EmbedQuery rent_question], Inr fused)
              \<and> length fused \<le> 6 \<and> distinct (map page_content fused))"
proof -
  have c: "chunks scenario_loaded = Some [rent_chunk, pets_chunk]"
    by (simp add: scenario_loaded_def)
  have f: "faiss_rank scenario_services [rent_chunk, pets_chunk] rent_question
        = Inr [rent_chunk, pets_chunk]"
    by (simp add: scenario_services_def)
  have n: "NUM_CHUNKS default_config = 3" by (simp add: default_config_def)
  from hybrid_result_shape [OF scenario_setup c f]
  have "\<exists>fused. ensemble_invoke scenario_services scenario_retriever rent_question
                  = ([EmbedQuery rent_question], Inr fused)
              \<and> length fused \<le> 6 \<and> distinct (map page_content fused)"
    unfolding n by (auto simp: scenario_loaded_def)
  with scenario_setup f show ?thesis by blast
qed

text \<open>
  Claim C2 as stated fails on the five-page lease under the default configuration: the
  two lists share two texts of their three, and the fused list has four chunks, more than
  \<open>NUM_CHUNKS = 3\<close>.
\<close>

theorem hybrid_result_exceeds_top_n:
  "LeaseRAG_init default_config long_services ''lease.pdf'' None None =
     ([LoadPDF ''lease.pdf'', EmbedDocuments long_pages], Inr long_rag)
   \<and> hybrid_retriever long_rag = Some long_retriever
   \<and> ensemble_invoke long_services long_retriever ''How much is the rent?''
        = ([EmbedQuery ''How much is the rent?''],
           Inr [rent_chunk, initials_chunk_p3, pets_chunk, fee_chunk])
   \<and> NUM_CHUNKS default_config = 3
   \<and> \<not> length [rent_chunk, initials_chunk_p3, pets_chunk, fee_chunk] \<le> NUM_CHUNKS default_config"
  by (simp add: long_init long_retrieve) (simp add: long_rag_def default_config_def)

subsection \<open>C3: the sources are the context of the prompt\<close>

text \<open>
  Claim C3. When \<^verbatim>\<open>query\<close> returns, the completion service was called once, with
  the prompt whose context is the texts of the retrieved documents in retrieval order,
  and \<^verbatim>\<open>sources\<close> has one entry per retrieved document, in the same order, with
  that document's text and its page metadata. On an object the constructor built, the
  prompt is the text of \<^verbatim>\<open>_setup_chain\<close>: the instructions, then after "Context:" the
  texts of the retrieved documents, in order and separated by a blank line, then the
  question.
\<close>

theorem sources_are_prompt_context:
  assumes "query sv self question = (self', tr, Inr r)"
  shows "\<exists>ch docs tr0. retriever_chain self = Some ch
      \<and> ensemble_invoke sv (chain_retriever ch) question = (tr0, Inr docs)
      \<and> completion_prompts tr =
          [chain_prompt ch (str_join (NL @ NL) (map page_content docs)) question]
      \<and> resp_context (raw_response r) = docs
      \<and> sources r = map source_of docs
      \<and> map content (sources r) = map page_content docs
      \<and> map page (sources r) = map (\<lambda>d. dict_get (metadata d) ''page'' (MStr ''Unknown'')) docs
      \<and> (LeaseRAG_init cfg sv0 path a b = (tr1, Inr self) \<longrightarrow>
           completion_prompts tr =
             [''Answer the question based ONLY on the context below.'' @ NL @
              ''For every fact, you MUST cite the Page Number found in the metadata.'' @ NL @
              ''Try to answer is a concise manner. No more than 5 sentences.'' @ NL @
              NL @
              ''Context:'' @ NL @
              str_join (NL @ NL) (map page_content docs) @ NL @
              NL @
              ''Question: '' @ question @ NL @
              ''Answer:''])"
proof -
  from assms obtain ch resp where ch: "retriever_chain self = Some ch"
    and ci: "chain_invoke sv ch question = (tr, Inr resp)"
    and r: "r = \<lparr>answer = resp_answer resp, sources = map source_of (resp_context resp),
                 raw_response = resp\<rparr>"
    by (rule query_Inr)
  from ci obtain tr0 docs ans where
    e: "ensemble_invoke sv (chain_retriever ch) question = (tr0, Inr docs)" and
    t: "tr = tr0 @ [Complete (chain_prompt ch (str_join (NL @ NL) (map page_content docs)) question)]" and
    resp: "resp = \<lparr>resp_input = question, resp_context = docs, resp_answer = ans\<rparr>"
    by (rule chain_invoke_Inr)
  from ensemble_invoke_prompts [of sv "chain_retriever ch" question] e
  have "completion_prompts tr0 = []" by simp
  with t have p: "completion_prompts tr =
      [chain_prompt ch (str_join (NL @ NL) (map page_content docs)) question]" by simp
  from r resp have s: "sources r = map source_of docs" "resp_context (raw_response r) = docs"
    by simp_all
  have "map content (map source_of docs) = map page_content docs"
    and "map page (map source_of docs) = map (\<lambda>d. dict_get (metadata d) ''page'' (MStr ''Unknown'')) docs"
    by (simp_all add: source_of_def)
  moreover have "completion_prompts tr =
             [''Answer the question based ONLY on the context below.'' @ NL @
              ''For every fact, you MUST cite the Page Number found in the metadata.'' @ NL @
              ''Try to answer is a concise manner. No more than 5 sentences.'' @ NL @
              NL @
              ''Context:'' @ NL @
              str_join (NL @ NL) (map page_content docs) @ NL @
              NL @
              ''Question: '' @ question @ NL @
              ''Answer:'']"
    if "LeaseRAG_init cfg sv0 path a b = (tr1, Inr self)"
  proof -
    from init_chain [OF that] ch have "chain_prompt ch = template" by auto
    with p show ?thesis by (simp only: template_def)
  qed
  ultimately show ?thesis using ch e p s by simp
qed

text \<open>
  Claim C3, an instance: the rent question on the two-page lease.
\<close>

theorem sources_are_prompt_context_witness:
  "LeaseRAG_init default_config scenario_services ''lease.pdf'' None None =
     ([LoadPDF ''lease.pdf'',
       EmbedDocuments [''The monthly rent is $1500, due on the 1st.'',
                       ''Pets are not allowed without written consent.'']],
      Inr scenario_rag)
   \<and> query scenario_services scenario_rag rent_question
     = (scenario_rag, [EmbedQuery rent_question, Complete scenario_prompt], Inr scenario_result)
   \<and> completion_prompts [EmbedQuery rent_question, Complete scenario_prompt]
       = [''Answer the question based ONLY on the context below.'' @ NL @
          ''For every fact, you MUST cite the Page Number found in the metadata.'' @ NL @
          ''Try to answer is a concise manner. No more than 5 sentences.'' @ NL @
          NL @
          ''Context:'' @ NL @
          str_join (NL @ NL) (map page_content [rent_chunk, pets_chunk]) @ NL @
          NL @
          ''Question: '' @ rent_question @ NL @
          ''Answer:'']
   \<and> sources scenario_result = map source_of [rent_chunk, pets_chunk]"
proof -
  from sources_are_prompt_context
    [OF scenario_query, of default_config scenario_services "''lease.pdf''" None None
       "[LoadPDF ''lease.pdf'',
         EmbedDocuments [''The monthly rent is $1500, due on the 1st.'',
                         ''Pets are not allowed without written consent.'']]"]
  obtain ch docs tr0 where
    ch: "retriever_chain scenario_rag = Some ch" and
    e: "ensemble_invoke scenario_services (chain_retriever ch) rent_question = (tr0, Inr docs)" and
    s: "sources scenario_result = map source_of docs" and
    p: "LeaseRAG_init default_config scenario_services ''lease.pdf'' None None =
          ([LoadPDF ''lease.pdf'',
            EmbedDocuments [''The monthly rent is $1500, due on the 1st.'',
                            ''Pets are not allowed without written consent.'']],
           Inr scenario_rag) \<longrightarrow>
        completion_prompts [EmbedQuery rent_question, Complete scenario_prompt] =
          [''Answer the question based ONLY on the context below.'' @ NL @
           ''For every fact, you MUST cite the Page Number found in the metadata.'' @ NL @
           ''Try to answer is a concise manner. No more than 5 sentences.'' @ NL @
           NL @
           ''Context:'' @ NL @
           str_join (NL @ NL) (map page_content docs) @ NL @
           NL @
           ''Question: '' @ rent_question @ NL @
           ''Answer:'']"
    by blast
  from ch have "chain_retriever ch = scenario_retriever"
    by (auto simp: scenario_rag_chain scenario_chain_def)
  with e have d: "docs = [rent_chunk, pets_chunk]"
    by (simp add: scenario_retrieve)
  from p s scenario_init scenario_query show ?thesis
    unfolding d by blast
qed

subsection \<open>C4: page numbers\<close>

text \<open>
  The numbering the code produces, for every document: a chunk carries the index of the
  page it was cut from, counted from 0 as the PDF loader counts pages, and a source entry
  made from a chunk reports this index unchanged. Nothing between the loader and the
  \<^verbatim>\<open>page\<close> field of a source adds one.
\<close>

theorem chunk_pages_count_from_zero:
  assumes "load_and_chunk_document cfg sv self = (tr, Inr self')"
  shows "\<exists>texts split_text cs.
        read_pdf sv (pdf_path self) = Inr texts
      \<and> make_splitter sv (chunk_size self) (chunk_overlap self) (SEPARATORS cfg) = Inr split_text
      \<and> chunks self' = Some cs
      \<and> map (\<lambda>c. (content (source_of c), page (source_of c))) cs
          = concat (map (\<lambda>i. map (\<lambda>piece. (piece, MInt (int i))) (split_text (texts ! i)))
                      [0..<length texts])"
proof -
  from assms obtain texts where t: "read_pdf sv (pdf_path self) = Inr texts"
    by (cases "read_pdf sv (pdf_path self)")
       (auto simp: load_and_chunk_document_def PyPDFLoader_load_def io_call_def)
  from assms t obtain split_text where
    s: "make_splitter sv (chunk_size self) (chunk_overlap self) (SEPARATORS cfg) = Inr split_text"
    by (cases "make_splitter sv (chunk_size self) (chunk_overlap self) (SEPARATORS cfg)")
       (auto simp: load_and_chunk_document_def PyPDFLoader_load_def io_call_def)
  from assms t s have
    c: "chunks self' = Some (split_documents split_text (chunk_overlap self)
                               (enumerate_pages (pdf_path self) 0 texts))"
    by (auto simp: load_and_chunk_document_def PyPDFLoader_load_def io_call_def io_return_def
          Let_def)
  from t s c split_enumerated_pages [of split_text "chunk_overlap self" "pdf_path self" 0 texts]
  show ?thesis by simp
qed

text \<open>
  An instance: the two chunks of the two-page lease are reported with pages 0 and 1.
\<close>

theorem chunk_pages_count_from_zero_witness:
  "load_and_chunk_document default_config scenario_services
     (new_object default_config ''lease.pdf'' None None)
     = ([LoadPDF ''lease.pdf''], Inr scenario_loaded)
   \<and> map (\<lambda>c. (content (source_of c), page (source_of c))) [rent_chunk, pets_chunk]
       = [(''The monthly rent is $1500, due on the 1st.'', MInt 0),
          (''Pets are not allowed without written consent.'', MInt 1)]"
  using chunk_pages_count_from_zero [OF scenario_load] scenario_load
  by (auto simp: scenario_loaded_def scenario_services_def new_object_def scenario_pages_def
        whole_page_splitter_def upt_rec)

text \<open>
  Claim C4 does not hold of the code. In the scenario the claim names, the two-page
  lease and the rent question, the first source is the sentence of the first page and its
  page is 0, not 1. The callers print this value as the page number ("Page 0" for the
  first page) and the prompt asks for page-number citations, so the index is one less
  than the page number the code means to report.
\<close>

theorem scenario_first_source_page_zero:
  "LeaseRAG_init default_config scenario_services ''lease.pdf'' None None =
     ([LoadPDF ''lease.pdf'',
       EmbedDocuments [''The monthly rent is $1500, due on the 1st.'',
                       ''Pets are not allowed without written consent.'']],
      Inr scenario_rag)
   \<and> query scenario_services scenario_rag ''How much is the rent?''
       = (scenario_rag, [EmbedQuery ''How much is the rent?'', Complete scenario_prompt],
          Inr scenario_result)
   \<and> content (sources scenario_result ! 0) = ''The monthly rent is $1500, due on the 1st.''
   \<and> page (sources scenario_result ! 0) = MInt 0
   \<and> page (sources scenario_result ! 0) \<noteq> MInt 1"
  using scenario_init scenario_query
  by (simp add: scenario_result_def rent_question_def)

subsection \<open>C5: the sentence ceiling of the prompt\<close>

text \<open>
  Claim C5 does not hold of the code. The constructor reads neither
  \<^verbatim>\<open>MAX_RESPONSE_SENTENCES\<close> nor \<^verbatim>\<open>PROMPT_TEMPLATE\<close>: changing them changes
  nothing. With \<^verbatim>\<open>MAX_RESPONSE_SENTENCES = 3\<close> the prompt sent for the rent question
  on the two-page lease still says "No more than 5 sentences." (at index 157) and nowhere
  "No more than 3 sentences.".
\<close>

theorem prompt_ceiling_is_fixed:
  "LeaseRAG_init (cfg\<lparr>MAX_RESPONSE_SENTENCES := n, PROMPT_TEMPLATE := t\<rparr>) sv path a b
     = LeaseRAG_init cfg sv path a b
   \<and> LeaseRAG_init (default_config\<lparr>MAX_RESPONSE_SENTENCES := 3\<rparr>) scenario_services
        ''lease.pdf'' None None
       = ([LoadPDF ''lease.pdf'',
           EmbedDocuments [''The monthly rent is $1500, due on the 1st.'',
                           ''Pets are not allowed without written consent.'']],
          Inr scenario_rag)
   \<and> query scenario_services scenario_rag rent_question
       = (scenario_rag, [EmbedQuery rent_question, Complete scenario_prompt], Inr scenario_result)
   \<and> str_find scenario_prompt ''No more than 5 sentences.'' 0 = 157
   \<and> str_find scenario_prompt ''No more than 3 sentences.'' 0 = - 1"
proof (intro conjI)
  show "LeaseRAG_init (cfg\<lparr>MAX_RESPONSE_SENTENCES := n, PROMPT_TEMPLATE := t\<rparr>) sv path a b
     = LeaseRAG_init cfg sv path a b"
    by (rule init_reads_only) simp_all
  have "LeaseRAG_init (default_config\<lparr>MAX_RESPONSE_SENTENCES := 3\<rparr>) scenario_services
        ''lease.pdf'' None None
      = LeaseRAG_init default_config scenario_services ''lease.pdf'' None None"
    by (rule init_reads_only) simp_all
  then show "LeaseRAG_init (default_config\<lparr>MAX_RESPONSE_SENTENCES := 3\<rparr>) scenario_services
        ''lease.pdf'' None None
       = ([LoadPDF ''lease.pdf'',
           EmbedDocuments [''The monthly rent is $1500, due on the 1st.'',
                           ''Pets are not allowed without written consent.'']],
          Inr scenario_rag)"
    by (simp only: scenario_init)
  show "query scenario_services scenario_rag rent_question
       = (scenario_rag, [EmbedQuery rent_question, Complete scenario_prompt], Inr scenario_result)"
    by (rule scenario_query)
  show "str_find scenario_prompt ''No more than 5 sentences.'' 0 = 157"
    by (simp add: str_find_def scenario_prompt_def NL_def)
  show "str_find scenario_prompt ''No more than 3 sentences.'' 0 = - 1"
    by (simp add: str_find_def scenario_prompt_def NL_def)
qed

subsection \<open>C6: a query before initialisation\<close>

text \<open>
  Claim C6, as the code has it. On an object whose retriever chain is not built,
  \<^verbatim>\<open>query\<close> raises \<^verbatim>\<open>ValueError("RAG system not initialized")\<close>, calls no
  service and returns no answer.
\<close>

theorem query_uninitialized:
  "retriever_chain self = None \<Longrightarrow>
     query sv self question = (self, [], Inl (ValueError ''RAG system not initialized''))"
  by (simp add: query_def io_raise_def)

text \<open>
  Claim C6, an instance: the object as \<^verbatim>\<open>__init__\<close> has it before its three steps.
\<close>

theorem query_uninitialized_witness:
  "retriever_chain (new_object default_config ''lease.pdf'' None None) = None
   \<and> query scenario_services (new_object default_config ''lease.pdf'' None None) rent_question
       = (new_object default_config ''lease.pdf'' None None, [],
          Inl (ValueError ''RAG system not initialized''))"
proof -
  have n: "retriever_chain (new_object default_config ''lease.pdf'' None None) = None"
    by (simp add: new_object_def)
  from query_uninitialized [OF n] n show ?thesis by simp
qed

text \<open>
  Claim C6 as stated fails: the exception of a query on an uninitialised object has the
  class \<^verbatim>\<open>ValueError\<close>, which is also the class of the exception the constructor
  raises for a missing API key. It is not a kind of its own, and not a
  \<^verbatim>\<open>NotReadyError\<close>.
\<close>

theorem uninitialized_error_is_generic:
  "snd (query scenario_services (new_object default_config ''lease.pdf'' None None)
          ''How much is the rent?'')
     = ([], Inl (ValueError ''RAG system not initialized''))
   \<and> LeaseRAG_init default_config nokey_services ''lease.pdf'' None None
     = ([], Inl (ValueError ''OPENAI_API_KEY environment variable not set''))
   \<and> exception_class (ValueError ''RAG system not initialized'') = ''ValueError''
   \<and> exception_class (ValueError ''OPENAI_API_KEY environment variable not set'') = ''ValueError''
   \<and> exception_class (ValueError ''RAG system not initialized'') \<noteq> ''NotReadyError''"
  by (simp add: query_def new_object_def io_raise_def LeaseRAG_init_def env_missing_def
        nokey_services_def exception_class_def)

subsection \<open>C7: a failing completion service\<close>

text \<open>
  Claim C7. When the completion service fails, \<^verbatim>\<open>query\<close> fails with the service's
  exception and leaves the object as it was: the chunks, the hybrid retriever with its two
  indexes and the retriever chain are unchanged, and a later query on the object behaves
  as it would have on the object before the failure.
\<close>

theorem completion_failure_keeps_state:
  assumes "retriever_chain self = Some ch"
      and "ensemble_invoke sv (chain_retriever ch) question = (tr0, Inr docs)"
      and "complete sv (chain_model_name ch) (chain_temperature ch)
             (chain_prompt ch (str_join (NL @ NL) (map page_content docs)) question) = Inl e"
  shows "query sv self question =
           (self, tr0 @ [Complete (chain_prompt ch (str_join (NL @ NL) (map page_content docs)) question)],
            Inl e)
       \<and> chunks (fst (query sv self question)) = chunks self
       \<and> hybrid_retriever (fst (query sv self question)) = hybrid_retriever self
       \<and> retriever_chain (fst (query sv self question)) = retriever_chain self
       \<and> query sv' (fst (query sv self question)) question = query sv' self question"
proof -
  from assms have "query sv self question =
           (self, tr0 @ [Complete (chain_prompt ch (str_join (NL @ NL) (map page_content docs)) question)],
            Inl e)"
    by (simp add: query_def chain_invoke_def io_call_def Let_def)
  then show ?thesis by simp
qed

text \<open>
  Claim C7, an instance: the rent question with a completion service that is out of
  quota, then the same question with the working service.
\<close>

theorem completion_failure_keeps_state_witness:
  "complete failing_services ''gpt-3.5-turbo'' 0 scenario_prompt
     = Inl (OtherException ''RateLimitError'' ''quota exceeded'')
   \<and> query failing_services scenario_rag rent_question
     = (scenario_rag, [EmbedQuery rent_question, Complete scenario_prompt],
        Inl (OtherException ''RateLimitError'' ''quota exceeded''))
   \<and> query scenario_services (fst (query failing_services scenario_rag rent_question))
        rent_question
     = (scenario_rag, [EmbedQuery rent_question, Complete scenario_prompt], Inr scenario_result)"
proof -
  have r: "ensemble_invoke failing_services (chain_retriever scenario_chain) rent_question
     = ([EmbedQuery rent_question], Inr [rent_chunk, pets_chunk])"
    by (simp add: scenario_chain_def ensemble_invoke_pair [where cs = "[rent_chunk, pets_chunk]"
          and k = 3 and cs' = "[rent_chunk, pets_chunk]" and k' = 3] scenario_retriever_def)
       (simp add: failing_services_def scenario_services_def scenario_fused)
  have p: "chain_prompt scenario_chain
             (str_join (NL @ NL) (map page_content [rent_chunk, pets_chunk])) rent_question
           = scenario_prompt"
    by (simp add: scenario_chain_def template_def scenario_prompt_def rent_question_def
          chunk_defs)
  have c: "complete failing_services (chain_model_name scenario_chain)
             (chain_temperature scenario_chain)
             (chain_prompt scenario_chain
                (str_join (NL @ NL) (map page_content [rent_chunk, pets_chunk])) rent_question)
           = Inl (OtherException ''RateLimitError'' ''quota exceeded'')"
    by (simp add: failing_services_def)
  have c': "complete failing_services ''gpt-3.5-turbo'' 0 scenario_prompt
     = Inl (OtherException ''RateLimitError'' ''quota exceeded'')"
    by (simp add: failing_services_def)
  from completion_failure_keeps_state [OF scenario_rag_chain r c, of scenario_services]
  show ?thesis
    unfolding p by (simp add: scenario_query c')
qed

subsection \<open>C8: metadata without a page\<close>

text \<open>
  Claim C8. Whenever the chain returns, \<^verbatim>\<open>query\<close> returns too, with one source per
  retrieved document; a document whose metadata has no page is reported with the page
  "Unknown", and one without a source with the source "Unknown".
\<close>

theorem missing_page_is_unknown:
  assumes "retriever_chain self = Some ch"
      and "chain_invoke sv ch question = (tr, Inr resp)"
  shows "\<exists>r. query sv self question = (self, tr, Inr r)
      \<and> length (sources r) = length (resp_context resp)
      \<and> (\<forall>i < length (resp_context resp).
            content (sources r ! i) = page_content (resp_context resp ! i)
          \<and> (map_of (metadata (resp_context resp ! i)) ''page'' = None
               \<longrightarrow> page (sources r ! i) = MStr ''Unknown'')
          \<and> (map_of (metadata (resp_context resp ! i)) ''source'' = None
               \<longrightarrow> source (sources r ! i) = MStr ''Unknown''))"
proof -
  let ?r = "\<lparr>answer = resp_answer resp, sources = map source_of (resp_context resp),
             raw_response = resp\<rparr>"
  from assms have "query sv self question = (self, tr, Inr ?r)"
    by (simp add: query_def io_return_def)
  moreover have "length (sources ?r) = length (resp_context resp)" by simp
  moreover have "\<forall>i < length (resp_context resp).
            content (sources ?r ! i) = page_content (resp_context resp ! i)
          \<and> (map_of (metadata (resp_context resp ! i)) ''page'' = None
               \<longrightarrow> page (sources ?r ! i) = MStr ''Unknown'')
          \<and> (map_of (metadata (resp_context resp ! i)) ''source'' = None
               \<longrightarrow> source (sources ?r ! i) = MStr ''Unknown'')"
    by (simp add: source_of_def dict_get_def)
  ultimately show ?thesis by blast
qed

text \<open>
  Claim C8, an instance: the semantic index returns a document with empty metadata; it is
  ranked first and reported with page and source "Unknown".
\<close>

theorem missing_page_is_unknown_witness:
  "map_of (metadata unknown_doc) ''page'' = None
   \<and> chain_invoke bare_services scenario_chain rent_question
     = ([EmbedQuery rent_question,
         Complete (template (str_join (NL @ NL)
                     (map page_content [unknown_doc, rent_chunk, pets_chunk])) rent_question)],
        Inr \<lparr>resp_input = rent_question,
             resp_context = [unknown_doc, rent_chunk, pets_chunk],
             resp_answer = ''The monthly rent is $1500 (Page 1).''\<rparr>)
   \<and> (\<exists>r tr. query bare_services scenario_rag rent_question = (scenario_rag, tr, Inr r)
          \<and> length (sources r) = 3
          \<and> content (sources r ! 0) = ''Parking is by permit only.''
          \<and> page (sources r ! 0) = MStr ''Unknown''
          \<and> source (sources r ! 0) = MStr ''Unknown'')"
proof -
  have m: "map_of (metadata unknown_doc) ''page'' = None"
    "map_of (metadata unknown_doc) ''source'' = None"
    "page_content unknown_doc = ''Parking is by permit only.''"
    by (simp_all add: unknown_doc_def)
  from missing_page_is_unknown [OF scenario_rag_chain bare_chain]
  obtain r where q: "query bare_services scenario_rag rent_question
      = (scenario_rag,
         [EmbedQuery rent_question,
          Complete (template (str_join (NL @ NL)
                     (map page_content [unknown_doc, rent_chunk, pets_chunk])) rent_question)],
         Inr r)"
    and l: "length (sources r) = 3"
    and a: "\<forall>i<3. content (sources r ! i) = page_content ([unknown_doc, rent_chunk, pets_chunk] ! i)
          \<and> (map_of (metadata ([unknown_doc, rent_chunk, pets_chunk] ! i)) ''page'' = None
               \<longrightarrow> page (sources r ! i) = MStr ''Unknown'')
          \<and> (map_of (metadata ([unknown_doc, rent_chunk, pets_chunk] ! i)) ''source'' = None
               \<longrightarrow> source (sources r ! i) = MStr ''Unknown'')"
    by auto
  from a have "content (sources r ! 0) = page_content unknown_doc
     \<and> (map_of (metadata unknown_doc) ''page'' = None \<longrightarrow> page (sources r ! 0) = MStr ''Unknown'')
     \<and> (map_of (metadata unknown_doc) ''source'' = None \<longrightarrow> source (sources r ! 0) = MStr ''Unknown'')"
    by (auto dest: spec [of _ 0])
  with m have "content (sources r ! 0) = ''Parking is by permit only.''"
    "page (sources r ! 0) = MStr ''Unknown''" "source (sources r ! 0) = MStr ''Unknown''"
    by simp_all
  with q l m(1) bare_chain show ?thesis by blast
qed

subsection \<open>C9: a missing API key\<close>

text \<open>
  Claim C9, as the code has it. When \<^verbatim>\<open>OPENAI_API_KEY\<close> is missing or empty, the
  constructor raises \<^verbatim>\<open>ValueError("OPENAI_API_KEY environment variable not set")\<close>
  before any call to a service: the trace is empty. An object that was constructed had
  the key at construction, and \<^verbatim>\<open>query\<close> never reads the environment.
\<close>

theorem missing_key_fails_before_io:
  "(env_missing sv ''OPENAI_API_KEY'' \<longrightarrow>
      LeaseRAG_init cfg sv path a b =
        ([], Inl (ValueError ''OPENAI_API_KEY environment variable not set'')))
 \<and> (\<forall>tr self. LeaseRAG_init cfg sv path a b = (tr, Inr self) \<longrightarrow>
        \<not> env_missing sv ''OPENAI_API_KEY'')
 \<and> query (sv\<lparr>environ := env'\<rparr>) self question = query sv self question"
proof (intro conjI allI impI)
  assume "env_missing sv ''OPENAI_API_KEY''"
  then show "LeaseRAG_init cfg sv path a b =
        ([], Inl (ValueError ''OPENAI_API_KEY environment variable not set''))"
    by (simp add: LeaseRAG_init_def Let_def io_raise_def)
next
  fix tr self assume "LeaseRAG_init cfg sv path a b = (tr, Inr self)"
  then show "\<not> env_missing sv ''OPENAI_API_KEY''" by (rule init_Inr)
next
  have r: "retriever_invoke (sv\<lparr>environ := env'\<rparr>) r q = retriever_invoke sv r q" for r q
    by (cases r) simp_all
  have "invoke_all (sv\<lparr>environ := env'\<rparr>) rs q = invoke_all sv rs q" for rs q
    by (induction rs) (simp_all add: r)
  then have "chain_invoke (sv\<lparr>environ := env'\<rparr>) ch q = chain_invoke sv ch q" for ch q
    by (simp add: chain_invoke_def ensemble_invoke_def)
  then show "query (sv\<lparr>environ := env'\<rparr>) self question = query sv self question"
    by (cases "retriever_chain self") (simp_all add: query_def)
qed

text \<open>
  Claim C9, an instance: the two-page world without the key, and with it.
\<close>

theorem missing_key_fails_before_io_witness:
  "env_missing nokey_services ''OPENAI_API_KEY''
   \<and> LeaseRAG_init default_config nokey_services ''lease.pdf'' None None
     = ([], Inl (ValueError ''OPENAI_API_KEY environment variable not set''))
   \<and> \<not> env_missing scenario_services ''OPENAI_API_KEY''"
proof -
  have m: "env_missing nokey_services ''OPENAI_API_KEY''"
    by (simp add: env_missing_def nokey_services_def)
  from missing_key_fails_before_io
    [of nokey_services default_config "''lease.pdf''" None None "\<lambda>name. None" scenario_rag rent_question]
  have 1: "LeaseRAG_init default_config nokey_services ''lease.pdf'' None None
     = ([], Inl (ValueError ''OPENAI_API_KEY environment variable not set''))"
    using m by blast
  from missing_key_fails_before_io
    [of scenario_services default_config "''lease.pdf''" None None "\<lambda>name. None" scenario_rag rent_question]
    scenario_init
  have 2: "\<not> env_missing scenario_services ''OPENAI_API_KEY''" by blast
  from m 1 2 show ?thesis by blast
qed

text \<open>
  Claim C9 as stated fails in the class of the exception: without the key the constructor
  raises a \<^verbatim>\<open>ValueError\<close>, not a \<^verbatim>\<open>ConfigurationError\<close>.
\<close>

theorem missing_key_error_is_value_error:
  "LeaseRAG_init default_config nokey_services ''lease.pdf'' None None
     = ([], Inl (ValueError ''OPENAI_API_KEY environment variable not set''))
   \<and> exception_class (ValueError ''OPENAI_API_KEY environment variable not set'')
       = ''ValueError''
   \<and> exception_class (ValueError ''OPENAI_API_KEY environment variable not set'')
       \<noteq> ''ConfigurationError''"
  by (simp add: LeaseRAG_init_def env_missing_def nokey_services_def io_raise_def
        exception_class_def)

subsection \<open>C10: a zero argument\<close>

text \<open>
  Claim C10. A \<^verbatim>\<open>chunk_size\<close> or \<^verbatim>\<open>chunk_overlap\<close> argument of 0 is replaced by
  the configured default: the constructor behaves as if the argument had not been given,
  and \<^verbatim>\<open>get_stats\<close> reports the default.
\<close>

theorem zero_argument_is_default:
  "LeaseRAG_init cfg sv path (Some 0) b = LeaseRAG_init cfg sv path None b
 \<and> LeaseRAG_init cfg sv path a (Some 0) = LeaseRAG_init cfg sv path a None
 \<and> (\<forall>tr self. LeaseRAG_init cfg sv path (Some 0) (Some 0) = (tr, Inr self) \<longrightarrow>
        stats_chunk_size (get_stats self) = CHUNK_SIZE cfg
      \<and> stats_chunk_overlap (get_stats self) = CHUNK_OVERLAP cfg)"
proof (intro conjI allI impI)
  show "LeaseRAG_init cfg sv path (Some 0) b = LeaseRAG_init cfg sv path None b"
    by (simp add: LeaseRAG_init_def new_object_def py_or_zero)
  show "LeaseRAG_init cfg sv path a (Some 0) = LeaseRAG_init cfg sv path a None"
    by (simp add: LeaseRAG_init_def new_object_def py_or_zero)
next
  fix tr self assume "LeaseRAG_init cfg sv path (Some 0) (Some 0) = (tr, Inr self)"
  from init_fields [OF this]
  show "stats_chunk_size (get_stats self) = CHUNK_SIZE cfg"
    and "stats_chunk_overlap (get_stats self) = CHUNK_OVERLAP cfg"
    by (simp_all add: get_stats_def py_or_def)
qed

text \<open>
  Claim C10, an instance: the two-page lease constructed with both arguments 0.
\<close>

theorem zero_argument_is_default_witness:
  "LeaseRAG_init default_config scenario_services ''lease.pdf'' (Some 0) (Some 0)
     = ([LoadPDF ''lease.pdf'',
         EmbedDocuments [''The monthly rent is $1500, due on the 1st.'',
                         ''Pets are not allowed without written consent.'']],
        Inr scenario_rag)
   \<and> stats_chunk_size (get_stats scenario_rag) = 250
   \<and> stats_chunk_overlap (get_stats scenario_rag) = 50"
proof -
  note t1 = zero_argument_is_default
    [of default_config scenario_services "''lease.pdf''" "Some 0" None]
  note t2 = zero_argument_is_default
    [of default_config scenario_services "''lease.pdf''" None None]
  from t1 t2 have "LeaseRAG_init default_config scenario_services ''lease.pdf'' (Some 0) (Some 0)
     = LeaseRAG_init default_config scenario_services ''lease.pdf'' None None"
    by simp
  then have i: "LeaseRAG_init default_config scenario_services ''lease.pdf'' (Some 0) (Some 0)
     = ([LoadPDF ''lease.pdf'',
         EmbedDocuments [''The monthly rent is $1500, due on the 1st.'',
                         ''Pets are not allowed without written consent.'']],
        Inr scenario_rag)"
    by (simp only: scenario_init)
  with t1 have "stats_chunk_size (get_stats scenario_rag) = CHUNK_SIZE default_config"
    "stats_chunk_overlap (get_stats scenario_rag) = CHUNK_OVERLAP default_config"
    by blast+
  with i show ?thesis by (simp add: default_config_def)
qed

end
